theory Spec2Isabelle
  imports Complex_Main "HOL-Library.Sublist" "HOL-Library.Char_ord" "HOL-Library.List_Lexorder"
    "HOL-Library.Product_Lexorder"
begin

section \<open>The provider search backend (backend/server.js)\<close>

text \<open>
  The backend is an Express application over a PostgreSQL/PostGIS store. Its handlers
  are JavaScript; what they compute is written in the SQL they send. The embedding
  keeps both: each table is a list of rows, each query is the list expression that the
  SQL text denotes, and each handler is a function from the request and the store to
  the response it sends. A string is the list of its characters (the names and codes of
  the data are ASCII text), and a JavaScript number is a real number.
\<close>

subsection \<open>SQL values and operators\<close>

text \<open>
  A nullable column is an \<open>option\<close>. A comparison with NULL is not true, so a
  \<open>WHERE\<close> or \<open>JOIN ... ON\<close> condition drops the row.
\<close>

definition sql_eq :: "'a option \<Rightarrow> 'a option \<Rightarrow> bool" where
  "sql_eq a b = (case (a, b) of (Some x, Some y) \<Rightarrow> x = y | _ \<Rightarrow> False)"

text \<open>
  \<open>ILIKE\<close> folds case on both sides and then matches the pattern as \<open>LIKE\<close> does:
  \<open>%\<close> stands for any run of characters, \<open>_\<close> for one character, and a backslash
  takes the next pattern character literally. Case folding is that of the ASCII letters.
  A pattern that ends in a lone backslash matches nothing here (PostgreSQL raises an
  error when a match reaches it).
\<close>

definition lower_char :: "char \<Rightarrow> char" where
  "lower_char c =
     (case map_of (zip ''ABCDEFGHIJKLMNOPQRSTUVWXYZ'' ''abcdefghijklmnopqrstuvwxyz'') c of
        Some d \<Rightarrow> d | None \<Rightarrow> c)"

definition fold_case :: "string \<Rightarrow> string" where
  "fold_case s = map lower_char s"

fun like_match :: "string \<Rightarrow> string \<Rightarrow> bool" where
  "like_match [] t = (t = [])"
| "like_match (p # ps) t =
     (if p = CHR ''%'' then
        (like_match ps t \<or> (case t of [] \<Rightarrow> False | c # cs \<Rightarrow> like_match (p # ps) cs))
      else if p = CHR ''_'' then
        (case t of [] \<Rightarrow> False | c # cs \<Rightarrow> like_match ps cs)
      else if p = CHR 0x5C then
        (case ps of [] \<Rightarrow> False
         | q # qs \<Rightarrow> (case t of [] \<Rightarrow> False | c # cs \<Rightarrow> c = q \<and> like_match qs cs))
      else
        (case t of [] \<Rightarrow> False | c # cs \<Rightarrow> c = p \<and> like_match ps cs))"

definition ilike :: "string \<Rightarrow> string \<Rightarrow> bool" where
  "ilike t p = like_match (fold_case p) (fold_case t)"

definition sql_ilike :: "string option \<Rightarrow> string \<Rightarrow> bool" where
  "sql_ilike col p = (case col of None \<Rightarrow> False | Some t \<Rightarrow> ilike t p)"

text \<open>The characters that a \<open>LIKE\<close> pattern does not take literally.\<close>

definition like_special :: "char set" where
  "like_special = {CHR ''%'', CHR ''_'', CHR 0x5C}"

text \<open>
  The reading of "contains as a case-insensitive substring": the folded name has the
  folded query as a contiguous run.
\<close>

definition contains_ci :: "string \<Rightarrow> string \<Rightarrow> bool" where
  "contains_ci name q = sublist (fold_case q) (fold_case name)"

subsection \<open>Tables\<close>

text \<open>
  \<open>npi_prescriptions\<close>: one row per provider, drug and source state. The foreign key
  to \<open>npi_details\<close> was dropped at import, so \<open>npi\<close> is any number or NULL.
\<close>

record npi_prescription =
  np_prescription_id :: nat
  np_npi :: "int option"
  np_drug_name :: "string option"
  np_generic_name :: "string option"
  np_total_claim_count :: "int option"

text \<open>
  \<open>npi_details\<close>: the provider, keyed by \<open>npi\<close>. \<open>npi_addresses\<close>: the practice
  address, keyed by \<open>npi\<close> as well (one address per provider).
\<close>

record npi_detail =
  nd_npi :: int
  nd_provider_first_name :: "string option"
  nd_provider_last_name_legal_name :: "string option"
  nd_npi_deactivation_date :: "string option"
  nd_provider_credential_text :: "string option"
  nd_healthcare_provider_taxonomy_1_classification :: "string option"
  nd_healthcare_provider_taxonomy_1_specialization :: "string option"

record npi_address =
  na_npi :: int
  na_first_line :: "string option"
  na_second_line :: "string option"
  na_city_name :: "string option"
  na_state_name :: "string option"
  na_postal_code :: "string option"
  na_telephone_number :: "string option"

text \<open>
  \<open>us_zipcodes.geom\<close> is declared \<open>GEOMETRY(Point, 4326)\<close>: a point of the plane
  whose coordinates are the longitude and the latitude, in degrees. PostGIS measures
  geometry values in the units of their coordinates: \<open>ST_Distance\<close> is the planar
  distance and \<open>ST_DWithin(a, b, d)\<close> holds when that distance is at most \<open>d\<close>.
  (The geography type, which the schema does not use, is the one measured in meters.)
\<close>

record point =
  lon :: real
  lat :: real

definition ST_Distance :: "point \<Rightarrow> point \<Rightarrow> real" where
  "ST_Distance a b = sqrt ((lon a - lon b)\<^sup>2 + (lat a - lat b)\<^sup>2)"

definition ST_DWithin :: "point \<Rightarrow> point \<Rightarrow> real \<Rightarrow> bool" where
  "ST_DWithin a b d = (ST_Distance a b \<le> d)"

record us_zipcode =
  uz_zip_code :: "string option"
  uz_geom :: point

record database =
  npi_details :: "npi_detail list"
  npi_addresses :: "npi_address list"
  npi_prescriptions :: "npi_prescription list"
  us_zipcodes :: "us_zipcode list"

subsection \<open>Responses\<close>

text \<open>
  A JavaScript object of the response is the list of its keys and values, in the order
  the object literal writes them.
\<close>

datatype json_value = JNull | JString string | JNumber real | JArray "json_value list"

type_synonym json_object = "(string \<times> json_value) list"

record search_result =
  data :: "json_object list"
  totalCount :: nat
  nextCursor :: "nat option"

datatype body =
    Error_body string
  | Validation_Error_body
  | Suggestions_body "string list"
  | Search_body search_result

record response =
  status :: nat
  payload :: body

definition json :: "nat \<Rightarrow> body \<Rightarrow> response" where
  "json s b = \<lparr>status = s, payload = b\<rparr>"

subsection \<open>Drug suggestions (getDrugSuggestionsHandler)\<close>

text \<open>
  \<^verbatim>\<open>SELECT DISTINCT name FROM (
     SELECT drug_name as name FROM npi_prescriptions WHERE drug_name ILIKE $1
     UNION
     SELECT generic_name as name FROM npi_prescriptions WHERE generic_name ILIKE $1
   ) as suggestions LIMIT 10\<close>
  The query has no \<open>ORDER BY\<close>: the rows come in the order the engine produces them,
  here the order of the table.
\<close>

definition drug_suggestions_query :: "npi_prescription list \<Rightarrow> string \<Rightarrow> string list" where
  "drug_suggestions_query prescriptions searchQuery =
     take 10 (remdups
       (filter (\<lambda>n. ilike n searchQuery) (List.map_filter np_drug_name prescriptions) @
        filter (\<lambda>n. ilike n searchQuery) (List.map_filter np_generic_name prescriptions)))"

text \<open>
  The handler: \<open>userId\<close> is what \<open>authenticateToken\<close> left on the request, \<open>query\<close> is
  \<open>req.query.q\<close> when it is a string.
\<close>

definition q_too_short :: string where
  "q_too_short =
     ''Query parameter '' @ [CHR 0x22] @ ''q'' @ [CHR 0x22] @ '' must be at least 2 characters long.''"

definition getDrugSuggestionsHandler ::
  "npi_prescription list \<Rightarrow> string option \<Rightarrow> string option \<Rightarrow> response" where
  "getDrugSuggestionsHandler prescriptions userId query =
     (case userId of
        None \<Rightarrow> json 401 (Error_body ''User not authenticated'')
      | Some u \<Rightarrow>
          (case query of
             None \<Rightarrow> json 400 (Error_body q_too_short)
           | Some q \<Rightarrow>
               if length q < 2
               then json 400 (Error_body q_too_short)
               else json 200 (Suggestions_body
                      (drug_suggestions_query prescriptions (''%'' @ q @ ''%'')))))"

subsection \<open>Provider search (providerService.findProviders)\<close>

text \<open>
  The parameter object of \<open>findProviders\<close>: the resolved zip code and the fields that
  the handler copies from the body. \<open>None\<close> is a field that is \<open>undefined\<close> (or null,
  for \<open>taxonomyClass\<close>). The function defaults \<open>cursor\<close> to 0 and \<open>limit\<close> to 10 and
  no other field.
\<close>

record find_params =
  zipCode :: string
  drugName :: "string option"
  radiusMiles :: "real option"
  minClaims :: "real option"
  taxonomyClass :: "string option"
  sortBy :: "string option"
  cursor :: "nat option"
  limit :: "nat option"

datatype error = Error string

text \<open>
  The rows of \<open>baseQuery\<close>:
  \<^verbatim>\<open>FROM npi_details nd
   JOIN npi_addresses na ON nd.npi = na.npi
   JOIN npi_prescriptions np ON nd.npi = np.npi
   JOIN us_zipcodes uz ON na.provider_business_practice_location_address_postal_code = uz.zip_code
   WHERE ST_DWithin(uz.geom, $1, $2)
     AND (np.drug_name ILIKE $3 OR np.generic_name ILIKE $3)
     AND np.total_claim_count >= $4
     [AND nd.healthcare_provider_taxonomy_1_classification ILIKE '%' || taxonomyClass || '%']\<close>
  with \<open>$1\<close> the origin, \<open>$2 = radiusMeters\<close>, \<open>$3 = drugName\<close> and
  \<open>$4 = minClaims\<close>. The taxonomy condition is added when \<open>taxonomyClass\<close> is
  truthy: a string that is not empty.

  A parameter that is \<open>undefined\<close> is sent as NULL, and a condition on NULL is not
  true. The radius of an \<open>undefined\<close> \<open>radiusMiles\<close> is \<open>undefined * 1609.34\<close>, which
  is NaN: it is \<open>None\<close> here, and no distance is within it.
\<close>

type_synonym joined_row = "npi_detail \<times> npi_address \<times> npi_prescription \<times> us_zipcode"

definition truthy :: "string option \<Rightarrow> bool" where
  "truthy v = (case v of None \<Rightarrow> False | Some s \<Rightarrow> s \<noteq> [])"

definition sql_ge :: "int option \<Rightarrow> real option \<Rightarrow> bool" where
  "sql_ge col v =
     (case col of
        None \<Rightarrow> False
      | Some c \<Rightarrow> (case v of None \<Rightarrow> False | Some m \<Rightarrow> m \<le> real_of_int c))"

definition drug_predicate :: "npi_prescription \<Rightarrow> string \<Rightarrow> bool" where
  "drug_predicate np drug =
     (sql_ilike (np_drug_name np) drug \<or> sql_ilike (np_generic_name np) drug)"

definition where_clause ::
  "point \<Rightarrow> real option \<Rightarrow> string option \<Rightarrow> real option \<Rightarrow> string option \<Rightarrow> joined_row \<Rightarrow> bool" where
  "where_clause searchGeom radius drug minimum taxonomy r =
     (case r of (nd, na, np, uz) \<Rightarrow>
        (case radius of None \<Rightarrow> False | Some d \<Rightarrow> ST_DWithin (uz_geom uz) searchGeom d) \<and>
        (case drug of None \<Rightarrow> False | Some d \<Rightarrow> drug_predicate np d) \<and>
        sql_ge (np_total_claim_count np) minimum \<and>
        (if truthy taxonomy
         then sql_ilike (nd_healthcare_provider_taxonomy_1_classification nd)
                (''%'' @ the taxonomy @ ''%'')
         else True))"

definition joined :: "database \<Rightarrow> joined_row list" where
  "joined db =
     [(nd, na, np, uz).
        nd \<leftarrow> npi_details db,
        na \<leftarrow> npi_addresses db, nd_npi nd = na_npi na,
        np \<leftarrow> npi_prescriptions db, sql_eq (Some (nd_npi nd)) (np_npi np),
        uz \<leftarrow> us_zipcodes db, sql_eq (na_postal_code na) (uz_zip_code uz)]"

definition baseQuery ::
  "database \<Rightarrow> point \<Rightarrow> real option \<Rightarrow> string option \<Rightarrow> real option \<Rightarrow> string option \<Rightarrow> joined_row list" where
  "baseQuery db searchGeom radius drug minimum taxonomy =
     filter (where_clause searchGeom radius drug minimum taxonomy) (joined db)"

text \<open>\<^verbatim>\<open>SELECT COUNT(DISTINCT nd.npi) as total_count\<close> over the base query.\<close>

definition countQuery :: "joined_row list \<Rightarrow> nat" where
  "countQuery rows = length (remdups (map (\<lambda>(nd, na, np, uz). nd_npi nd) rows))"

text \<open>
  The select list of \<open>finalQuery\<close>, under its aliases. \<open>SELECT DISTINCT\<close> keeps one
  row of each value of the whole list.
\<close>

record result_row =
  npi :: int
  provider_first_name :: "string option"
  provider_last_name :: "string option"
  provider_credential_text :: "string option"
  healthcare_provider_taxonomy_1_classification :: "string option"
  healthcare_provider_taxonomy_1_specialization :: "string option"
  address_line_1 :: "string option"
  address_line_2 :: "string option"
  city :: "string option"
  state :: "string option"
  postal_code :: "string option"
  phone :: "string option"
  longitude :: real
  latitude :: real
  distance_meters :: real
  total_claim_count :: "int option"

definition select_list :: "point \<Rightarrow> joined_row \<Rightarrow> result_row" where
  "select_list searchGeom r =
     (case r of (nd, na, np, uz) \<Rightarrow>
        \<lparr>npi = nd_npi nd,
         provider_first_name = nd_provider_first_name nd,
         provider_last_name = nd_provider_last_name_legal_name nd,
         provider_credential_text = nd_provider_credential_text nd,
         healthcare_provider_taxonomy_1_classification =
           nd_healthcare_provider_taxonomy_1_classification nd,
         healthcare_provider_taxonomy_1_specialization =
           nd_healthcare_provider_taxonomy_1_specialization nd,
         address_line_1 = na_first_line na,
         address_line_2 = na_second_line na,
         city = na_city_name na,
         state = na_state_name na,
         postal_code = na_postal_code na,
         phone = na_telephone_number na,
         longitude = lon (uz_geom uz),
         latitude = lat (uz_geom uz),
         distance_meters = ST_Distance (uz_geom uz) searchGeom,
         total_claim_count = np_total_claim_count np\<rparr>)"

text \<open>
  \<open>ORDER BY\<close>, by sort key. Ascending order puts NULL last, descending order first;
  text is compared character by character. Rows with equal keys are left in the order
  they came in, which SQL leaves to the engine.
  \<^item> \<open>claims\<close>: \<^verbatim>\<open>ORDER BY np.total_claim_count DESC, distance_meters ASC\<close>
  \<^item> \<open>name\<close>: \<^verbatim>\<open>ORDER BY provider_last_name_legal_name ASC, provider_first_name ASC, distance_meters ASC\<close>
  \<^item> \<open>distance\<close> and anything else, \<open>undefined\<close> too: \<^verbatim>\<open>ORDER BY distance_meters ASC\<close>
\<close>

definition nulls_last :: "string option \<Rightarrow> bool \<times> string" where
  "nulls_last v = (case v of None \<Rightarrow> (True, []) | Some s \<Rightarrow> (False, s))"

definition claims_desc :: "int option \<Rightarrow> bool \<times> int" where
  "claims_desc v = (case v of None \<Rightarrow> (False, 0) | Some c \<Rightarrow> (True, - c))"

definition order_by :: "string option \<Rightarrow> result_row list \<Rightarrow> result_row list" where
  "order_by sort_by rows =
     (if sort_by = Some ''claims'' then
        sort_key (\<lambda>r. (claims_desc (total_claim_count r), distance_meters r)) rows
      else if sort_by = Some ''name'' then
        sort_key (\<lambda>r. (nulls_last (provider_last_name r), nulls_last (provider_first_name r),
                         distance_meters r)) rows
      else sort_key distance_meters rows)"

definition finalQuery :: "joined_row list \<Rightarrow> point \<Rightarrow> string option \<Rightarrow> nat \<Rightarrow> nat \<Rightarrow> result_row list" where
  "finalQuery rows searchGeom sort_by page_limit offset =
     take page_limit (drop offset (order_by sort_by (remdups (map (select_list searchGeom) rows))))"

text \<open>The formatting of a row: the object literal of \<open>results.rows.map\<close>.\<close>

definition or_empty :: "string option \<Rightarrow> string" where
  "or_empty v = (case v of None \<Rightarrow> [] | Some s \<Rightarrow> s)"

definition of_nullable :: "string option \<Rightarrow> json_value" where
  "of_nullable v = (case v of None \<Rightarrow> JNull | Some s \<Rightarrow> JString s)"

definition is_space :: "char \<Rightarrow> bool" where
  "is_space c = (c \<in> set [CHR '' '', CHR 0x09, CHR 0x0A, CHR 0x0B, CHR 0x0C, CHR 0x0D])"

definition trim :: "string \<Rightarrow> string" where
  "trim s = rev (dropWhile is_space (rev (dropWhile is_space s)))"

text \<open>\<^verbatim>\<open>.replace(/^, |, $/g, '')\<close>: a leading and a trailing comma-and-space go.\<close>

definition strip_commas :: "string \<Rightarrow> string" where
  "strip_commas s =
     (let s1 = (if prefix '', '' s then drop 2 s else s)
      in if suffix '', '' s1 then take (length s1 - 2) s1 else s1)"

fun digits :: "nat \<Rightarrow> string" where
  "digits n =
     (if n < 10 then [''0123456789'' ! n]
      else digits (n div 10) @ [''0123456789'' ! (n mod 10)])"

definition toString :: "int \<Rightarrow> string" where
  "toString i = (if i < 0 then ''-'' @ digits (nat (- i)) else digits (nat i))"

definition location_line :: "result_row \<Rightarrow> string" where
  "location_line row =
     trim (strip_commas
       (or_empty (address_line_1 row) @
        (if truthy (address_line_2 row) then '', '' @ the (address_line_2 row) else []) @
        '', '' @ or_empty (city row) @ '', '' @ or_empty (state row) @ '' '' @
        or_empty (postal_code row)))"

definition format_row :: "result_row \<Rightarrow> json_object" where
  "format_row row =
     [(''id'', JString (toString (npi row))),
      (''npi'', JString (toString (npi row))),
      (''name'', JString (trim (or_empty (provider_first_name row) @ '' '' @
                               or_empty (provider_last_name row)))),
      (''first_name'', of_nullable (provider_first_name row)),
      (''last_name'', of_nullable (provider_last_name row)),
      (''title'', JString (or_empty (provider_credential_text row))),
      (''specialties'', JArray (map JString (filter (\<lambda>s. s \<noteq> [])
          (List.map_filter id [healthcare_provider_taxonomy_1_classification row,
                               healthcare_provider_taxonomy_1_specialization row])))),
      (''city'', of_nullable (city row)),
      (''state'', of_nullable (state row)),
      (''location'', JString (location_line row)),
      (''rating'', JNumber 0),
      (''review_count'', JNumber 0),
      (''availability'', JString ''N/A''),
      (''latitude'', JNumber (latitude row)),
      (''longitude'', JNumber (longitude row))]"

text \<open>
  \<open>findProviders\<close>: the origin is the geometry of the first \<open>us_zipcodes\<close> row of the
  zip code, and the call throws when there is none.
\<close>

definition radiusMeters :: "real \<Rightarrow> real" where
  "radiusMeters miles = miles * 1609.34"

definition zip_lookup :: "database \<Rightarrow> string \<Rightarrow> us_zipcode list" where
  "zip_lookup db z = take 1 (filter (\<lambda>uz. sql_eq (uz_zip_code uz) (Some z)) (us_zipcodes db))"

definition matching_rows :: "database \<Rightarrow> find_params \<Rightarrow> point \<Rightarrow> joined_row list" where
  "matching_rows db params searchGeom =
     baseQuery db searchGeom (map_option radiusMeters (radiusMiles params)) (drugName params)
       (minClaims params) (taxonomyClass params)"

definition offset_of :: "find_params \<Rightarrow> nat" where
  "offset_of params = (case cursor params of None \<Rightarrow> 0 | Some c \<Rightarrow> c)"

definition limit_of :: "find_params \<Rightarrow> nat" where
  "limit_of params = (case limit params of None \<Rightarrow> 10 | Some l \<Rightarrow> l)"

definition search_from :: "database \<Rightarrow> find_params \<Rightarrow> point \<Rightarrow> search_result" where
  "search_from db params searchGeom =
     (let rows = matching_rows db params searchGeom;
          total = countQuery rows;
          results = finalQuery rows searchGeom (sortBy params) (limit_of params) (offset_of params);
          nextOffset = offset_of params + length results
      in \<lparr>data = map format_row results,
          totalCount = total,
          nextCursor = (if nextOffset < total then Some nextOffset else None)\<rparr>)"

definition findProviders :: "database \<Rightarrow> find_params \<Rightarrow> error + search_result" where
  "findProviders db params =
     (case zip_lookup db (zipCode params) of
        [] \<Rightarrow> Inl (Error (''Coordinates not found for zip code '' @ zipCode params))
      | zipRow # _ \<Rightarrow> Inr (search_from db params (uz_geom zipRow)))"

subsection \<open>Tier and saved locations (userService)\<close>

text \<open>
  \<open>getUserTier\<close> reads the user's row of \<open>profiles\<close> with \<open>.single()\<close>. The reply is the
  row's \<open>membership_tier\<close> (which may be null), the no-row reply (code \<open>PGRST116\<close>, for
  which the function returns null), or another error, which the function throws.
\<close>

datatype profile_reply = Profile "string option" | No_profile | Store_error string

record user_location =
  ul_user_id :: string
  ul_location_name :: "string option"
  ul_zip_code :: "string option"
  ul_is_primary :: bool

record app =
  profiles :: "string \<Rightarrow> profile_reply"
  user_locations :: "user_location list"
  store :: database

definition getUserTier :: "app \<Rightarrow> string \<Rightarrow> error + string option" where
  "getUserTier a userId =
     (case profiles a userId of
        Store_error message \<Rightarrow> Inl (Error message)
      | No_profile \<Rightarrow> Inr None
      | Profile membership_tier \<Rightarrow> Inr membership_tier)"

text \<open>
  \<^verbatim>\<open>SELECT zip_code, location_name FROM user_locations WHERE user_id = $1
     [AND is_primary = true] [AND location_name = $2] LIMIT 1\<close>
  The function throws when no row comes back.
\<close>

definition location_query :: "app \<Rightarrow> string \<Rightarrow> string option \<Rightarrow> bool \<Rightarrow> user_location list" where
  "location_query a userId locationName isPrimary =
     take 1 (filter
       (\<lambda>r. ul_user_id r = userId \<and>
            (if isPrimary then ul_is_primary r else True) \<and>
            (if truthy locationName then sql_eq (ul_location_name r) locationName else True))
       (user_locations a))"

definition getUserLocation :: "app \<Rightarrow> string \<Rightarrow> string option \<Rightarrow> bool \<Rightarrow> error + user_location" where
  "getUserLocation a userId locationName isPrimary =
     (case location_query a userId locationName isPrimary of
        [] \<Rightarrow> Inl (Error (if truthy locationName
                           then ''Location '' @ [CHR 0x27] @ the locationName @ [CHR 0x27] @
                                '' not found''
                           else ''Primary location not found''))
      | r # _ \<Rightarrow> Inr r)"

subsection \<open>The search route (findProvidersSchema, findProvidersHandler)\<close>

text \<open>
  The body of the request, field by field; \<open>None\<close> is a field that is absent (or null,
  where the schema allows null). The fields are typed: a body whose \<open>drugName\<close> is a
  number, say, is outside the model.
\<close>

record find_providers_body =
  body_drugName :: "string option"
  body_radiusMiles :: "real option"
  body_minClaims :: "real option"
  body_taxonomyClass :: "string option"
  body_sortBy :: "string option"
  body_locationName :: "string option"
  body_zipCode :: "string option"
  body_acceptedInsurance :: "string list option"
  body_minRating :: "real option"
  body_cursor :: "int option"
  body_limit :: "int option"

text \<open>The pattern \<^verbatim>\<open>/^\d{5}$/\<close>.\<close>

definition five_digits :: "string \<Rightarrow> bool" where
  "five_digits z = (length z = 5 \<and> list_all (\<lambda>c. c \<in> set ''0123456789'') z)"

definition in_range :: "'a::linorder option \<Rightarrow> 'a \<Rightarrow> 'a \<Rightarrow> bool" where
  "in_range v lo hi = (case v of None \<Rightarrow> True | Some x \<Rightarrow> lo \<le> x \<and> x \<le> hi)"

definition at_least :: "'a::linorder option \<Rightarrow> 'a \<Rightarrow> bool" where
  "at_least v lo = (case v of None \<Rightarrow> True | Some x \<Rightarrow> lo \<le> x)"

definition findProvidersSchema :: "find_providers_body \<Rightarrow> bool" where
  "findProvidersSchema b =
     ((case body_drugName b of None \<Rightarrow> False | Some d \<Rightarrow> d \<noteq> []) \<and>
      in_range (body_radiusMiles b) 1 100 \<and>
      at_least (body_minClaims b) 0 \<and>
      (case body_sortBy b of None \<Rightarrow> True
       | Some s \<Rightarrow> s = ''distance'' \<or> s = ''claims'' \<or> s = ''name'') \<and>
      (case body_zipCode b of None \<Rightarrow> True | Some z \<Rightarrow> z = [] \<or> five_digits z) \<and>
      (case body_acceptedInsurance b of None \<Rightarrow> True | Some xs \<Rightarrow> list_all (\<lambda>s. s \<noteq> []) xs) \<and>
      in_range (body_minRating b) 0 5 \<and>
      at_least (body_cursor b) 0 \<and>
      in_range (body_limit b) 1 100)"

text \<open>
  The parameter object that the handler passes to \<open>findProviders\<close>: the resolved zip
  code and the fields of \<open>req.body\<close> as the request sent them. The defaults of the schema
  (\<open>radiusMiles\<close> 10, \<open>minClaims\<close> 0, \<open>sortBy\<close> distance, \<open>limit\<close> 10) are values of the
  validation's result; the middleware does not write them to \<open>req.body\<close>, so a field that
  the request leaves out is \<open>undefined\<close> here.
\<close>

definition search_params :: "find_providers_body \<Rightarrow> string \<Rightarrow> find_params" where
  "search_params b searchZip =
     \<lparr>zipCode = searchZip,
      drugName = body_drugName b,
      radiusMiles = body_radiusMiles b,
      minClaims = body_minClaims b,
      taxonomyClass = body_taxonomyClass b,
      sortBy = body_sortBy b,
      cursor = map_option nat (body_cursor b),
      limit = map_option nat (body_limit b)\<rparr>"

text \<open>
  The queries that a request sends, in order: the trace that a handler returns beside
  its response.
\<close>

datatype query = Select_profile | Select_user_locations | Select_zip | Select_count | Select_page

text \<open>The \<open>catch\<close> block of the handler.\<close>

definition on_error :: "error \<Rightarrow> response" where
  "on_error e =
     (case e of Error message \<Rightarrow>
        if sublist ''not found'' message then json 404 (Error_body message)
        else json 500 (Error_body ''Unexpected error during provider search''))"

definition run_search :: "app \<Rightarrow> find_providers_body \<Rightarrow> string option \<Rightarrow> query list \<Rightarrow> response \<times> query list" where
  "run_search a b searchZip sent =
     (if \<not> truthy searchZip
      then (json 400 (Error_body ''Could not determine search location.''), sent)
      else
        (case findProviders (store a) (search_params b (the searchZip)) of
           Inl e \<Rightarrow> (on_error e, sent @ [Select_zip])
         | Inr results \<Rightarrow> (json 200 (Search_body results), sent @ [Select_zip, Select_count, Select_page])))"

definition findProvidersHandler :: "app \<Rightarrow> string option \<Rightarrow> find_providers_body \<Rightarrow> response \<times> query list" where
  "findProvidersHandler a user b =
     (case user of
        None \<Rightarrow> (json 401 (Error_body ''User not authenticated''), [])
      | Some userId \<Rightarrow>
          (case getUserTier a userId of
             Inl e \<Rightarrow> (on_error e, [Select_profile])
           | Inr userTier \<Rightarrow>
               if userTier = Some ''basic'' then
                 (case getUserLocation a userId None True of
                    Inl e \<Rightarrow> (on_error e, [Select_profile, Select_user_locations])
                  | Inr loc \<Rightarrow>
                      run_search a b (ul_zip_code loc) [Select_profile, Select_user_locations])
               else if userTier = Some ''premium'' then
                 (if \<not> truthy (body_locationName b)
                  then (json 400 (Error_body ''locationName required for premium''), [Select_profile])
                  else
                    (case getUserLocation a userId (body_locationName b) False of
                       Inl e \<Rightarrow> (on_error e, [Select_profile, Select_user_locations])
                     | Inr loc \<Rightarrow>
                         run_search a b (ul_zip_code loc) [Select_profile, Select_user_locations]))
               else if userTier = Some ''expert'' then
                 (if \<not> truthy (body_zipCode b)
                  then (json 400 (Error_body ''zipCode required for expert''), [Select_profile])
                  else run_search a b (body_zipCode b) [Select_profile])
               else
                 (if \<not> truthy (body_zipCode b)
                  then (json 400 (Error_body ''Zip code required''), [Select_profile])
                  else run_search a b (body_zipCode b) [Select_profile])))"

text \<open>
  The route for an authenticated user: \<open>validate(findProvidersSchema)\<close> runs before the
  handler and answers 400 \<open>Validation Error\<close> itself.
\<close>

definition find_providers_route :: "app \<Rightarrow> string \<Rightarrow> find_providers_body \<Rightarrow> response \<times> query list" where
  "find_providers_route a userId b =
     (if findProvidersSchema b then findProvidersHandler a (Some userId) b
      else (json 400 Validation_Error_body, []))"

subsection \<open>A sample store\<close>

text \<open>
  Three zip codes (two in Philadelphia, about a mile apart, and one in Los Angeles) and
  four providers. The first has two sertraline rows, the second is deactivated, the third
  practises in Los Angeles, and the fourth has one row whose names are
  \<open>SERTRALINE HCL\<close>.
\<close>

definition zip_19104 :: us_zipcode where
  "zip_19104 = \<lparr>uz_zip_code = Some ''19104'', uz_geom = \<lparr>lon = -75.19, lat = 39.95\<rparr>\<rparr>"

definition zip_19103 :: us_zipcode where
  "zip_19103 = \<lparr>uz_zip_code = Some ''19103'', uz_geom = \<lparr>lon = -75.17, lat = 39.95\<rparr>\<rparr>"

definition zip_90012 :: us_zipcode where
  "zip_90012 = \<lparr>uz_zip_code = Some ''90012'', uz_geom = \<lparr>lon = -118.24, lat = 34.06\<rparr>\<rparr>"

definition provider_1 :: npi_detail where
  "provider_1 = \<lparr>nd_npi = 1000000001, nd_provider_first_name = Some ''JANE'',
     nd_provider_last_name_legal_name = Some ''DOE'', nd_npi_deactivation_date = None,
     nd_provider_credential_text = Some ''MD'',
     nd_healthcare_provider_taxonomy_1_classification = Some ''Psychiatry & Neurology'',
     nd_healthcare_provider_taxonomy_1_specialization = Some ''Psychiatry''\<rparr>"

definition provider_2 :: npi_detail where
  "provider_2 = \<lparr>nd_npi = 1000000002, nd_provider_first_name = Some ''JOHN'',
     nd_provider_last_name_legal_name = Some ''ROE'',
     nd_npi_deactivation_date = Some ''2020-01-15'',
     nd_provider_credential_text = None,
     nd_healthcare_provider_taxonomy_1_classification = Some ''Family Medicine'',
     nd_healthcare_provider_taxonomy_1_specialization = None\<rparr>"

definition provider_3 :: npi_detail where
  "provider_3 = \<lparr>nd_npi = 1000000003, nd_provider_first_name = Some ''ALEX'',
     nd_provider_last_name_legal_name = Some ''POE'', nd_npi_deactivation_date = None,
     nd_provider_credential_text = Some ''DO'',
     nd_healthcare_provider_taxonomy_1_classification = Some ''Internal Medicine'',
     nd_healthcare_provider_taxonomy_1_specialization = None\<rparr>"

definition provider_4 :: npi_detail where
  "provider_4 = \<lparr>nd_npi = 1000000004, nd_provider_first_name = Some ''SAM'',
     nd_provider_last_name_legal_name = Some ''LEE'', nd_npi_deactivation_date = None,
     nd_provider_credential_text = Some ''NP'',
     nd_healthcare_provider_taxonomy_1_classification = Some ''Nurse Practitioner'',
     nd_healthcare_provider_taxonomy_1_specialization = Some ''Family''\<rparr>"

definition address_1 :: npi_address where
  "address_1 = \<lparr>na_npi = 1000000001, na_first_line = Some ''3400 SPRUCE ST'',
     na_second_line = None, na_city_name = Some ''PHILADELPHIA'', na_state_name = Some ''PA'',
     na_postal_code = Some ''19104'', na_telephone_number = Some ''2155550101''\<rparr>"

definition address_2 :: npi_address where
  "address_2 = \<lparr>na_npi = 1000000002, na_first_line = Some ''1800 LOMBARD ST'',
     na_second_line = Some ''SUITE 2'', na_city_name = None, na_state_name = None,
     na_postal_code = Some ''19103'', na_telephone_number = None\<rparr>"

definition address_3 :: npi_address where
  "address_3 = \<lparr>na_npi = 1000000003, na_first_line = Some ''100 MAIN ST'',
     na_second_line = None, na_city_name = Some ''LOS ANGELES'', na_state_name = Some ''CA'',
     na_postal_code = Some ''90012'', na_telephone_number = Some ''2135550103''\<rparr>"

definition address_4 :: npi_address where
  "address_4 = \<lparr>na_npi = 1000000004, na_first_line = Some ''3401 WALNUT ST'',
     na_second_line = None, na_city_name = Some ''PHILADELPHIA'', na_state_name = Some ''PA'',
     na_postal_code = Some ''19104'', na_telephone_number = Some ''2155550104''\<rparr>"

definition rx_1 :: npi_prescription where
  "rx_1 = \<lparr>np_prescription_id = 1, np_npi = Some 1000000001,
     np_drug_name = Some ''SERTRALINE HCL'', np_generic_name = Some ''SERTRALINE'',
     np_total_claim_count = Some 25\<rparr>"

definition rx_2 :: npi_prescription where
  "rx_2 = \<lparr>np_prescription_id = 2, np_npi = Some 1000000001,
     np_drug_name = Some ''ZOLOFT'', np_generic_name = Some ''SERTRALINE'',
     np_total_claim_count = Some 11\<rparr>"

definition rx_3 :: npi_prescription where
  "rx_3 = \<lparr>np_prescription_id = 3, np_npi = Some 1000000002,
     np_drug_name = Some ''Sertraline'', np_generic_name = Some ''Sertraline'',
     np_total_claim_count = Some 40\<rparr>"

definition rx_4 :: npi_prescription where
  "rx_4 = \<lparr>np_prescription_id = 4, np_npi = Some 1000000003,
     np_drug_name = Some ''SERTRALINE'', np_generic_name = Some ''SERTRALINE'',
     np_total_claim_count = Some 30\<rparr>"

definition rx_5 :: npi_prescription where
  "rx_5 = \<lparr>np_prescription_id = 5, np_npi = Some 1000000004,
     np_drug_name = Some ''SERTRALINE HCL'', np_generic_name = Some ''SERTRALINE HCL'',
     np_total_claim_count = Some 50\<rparr>"

definition sample_db :: database where
  "sample_db = \<lparr>
     npi_details = [provider_1, provider_2, provider_3, provider_4],
     npi_addresses = [address_1, address_2, address_3, address_4],
     npi_prescriptions = [rx_1, rx_2, rx_3, rx_4, rx_5],
     us_zipcodes = [zip_19104, zip_19103, zip_90012]\<rparr>"

text \<open>
  The search of the end-to-end scenario, with a page of ten: sertraline within 10 miles
  of 19104, at least 5 claims, nearest first.
\<close>

definition sample_search :: find_params where
  "sample_search = \<lparr>zipCode = ''19104'', drugName = Some ''sertraline'',
     radiusMiles = Some 10, minClaims = Some 5, taxonomyClass = None,
     sortBy = Some ''distance'', cursor = None, limit = Some 10\<rparr>"

text \<open>
  Users of the sample store: a basic user with a primary location, a basic user with
  no saved location, a premium user with two labelled locations and an expert user.
  Any other user has no profile.
\<close>

definition sample_app :: app where
  "sample_app = \<lparr>
     profiles = (\<lambda>u.
       if u = ''basic-user'' \<or> u = ''new-user'' then Profile (Some ''basic'')
       else if u = ''premium-user'' then Profile (Some ''premium'')
       else if u = ''expert-user'' then Profile (Some ''expert'')
       else No_profile),
     user_locations = [
       \<lparr>ul_user_id = ''basic-user'', ul_location_name = Some ''Home'',
        ul_zip_code = Some ''19104'', ul_is_primary = True\<rparr>,
       \<lparr>ul_user_id = ''premium-user'', ul_location_name = Some ''Home'',
        ul_zip_code = Some ''19103'', ul_is_primary = True\<rparr>,
       \<lparr>ul_user_id = ''premium-user'', ul_location_name = Some ''Work'',
        ul_zip_code = Some ''19104'', ul_is_primary = False\<rparr>],
     store = sample_db\<rparr>"

definition sample_body :: find_providers_body where
  "sample_body = \<lparr>body_drugName = Some ''sertraline'', body_radiusMiles = Some 10,
     body_minClaims = Some 5, body_taxonomyClass = None, body_sortBy = Some ''distance'',
     body_locationName = None, body_zipCode = None, body_acceptedInsurance = None,
     body_minRating = None, body_cursor = None, body_limit = Some 10\<rparr>"

definition page_ids :: "search_result \<Rightarrow> json_value option list" where
  "page_ids r = map (\<lambda>view. map_of view ''id'') (data r)"

subsection \<open>Metered access (createUsageRecord, getPrescriberDataWithSubscriptionCheck)\<close>

text \<open>
  The repository's metering code is in two modules of \<open>unnamed/part_000\<close>. The Stripe
  module binds the billing client (\<open>const stripe = require('stripe')(...)\<close>) and exports
  \<open>createUsageRecord\<close>. The integration layer imports that module as \<open>stripeService\<close>;
  its \<open>getPrescriberDataWithSubscriptionCheck\<close> reads the user's subscription and plan,
  queries the prescribers and, for a usage-based plan, goes on to record the usage. The
  billing client is the function that gives the reply of a usage-record call (\<open>Inl\<close>:
  the call fails).
\<close>

record user_subscription =
  us_user_id :: string
  us_subscription_status :: string
  us_plan_id :: string
  us_stripe_subscription_id :: string

record subscription_plan =
  sp_stripe_product_id :: string
  sp_tier :: string
  sp_usage_based :: bool

record prescriber =
  pr_state :: string
  pr_specialty :: string
  pr_prescription_count :: int

record prescriber_filters =
  filter_state :: "string option"
  filter_specialty :: "string option"
  filter_minPrescriptions :: "int option"

record billing =
  create_usage_record :: "string \<Rightarrow> nat \<Rightarrow> error + unit"

record metered_store =
  user_subscriptions :: "user_subscription list"
  subscription_plans :: "subscription_plan list"
  prescribers :: "prescriber list"
  prescribers_error :: "error option"

text \<open>
  What a call does beside its result: the usage-increment calls made to the billing
  service, the rows inserted into \<open>api_usage_logs\<close> (user and endpoint) and the lines
  written by \<open>console.error\<close>.
\<close>

datatype effect = Usage_increment string nat | Audit_insert string string | Console_error string

text \<open>\<open>createUsageRecord\<close>: the \<open>catch\<close> block logs the error and throws it again.\<close>

definition createUsageRecord :: "billing \<Rightarrow> string \<Rightarrow> nat \<Rightarrow> (error + unit) \<times> effect list" where
  "createUsageRecord stripe subscriptionItemId quantity =
     (case create_usage_record stripe subscriptionItemId quantity of
        Inr usageRecord \<Rightarrow> (Inr usageRecord, [Usage_increment subscriptionItemId quantity])
      | Inl e \<Rightarrow>
          (Inl e, [Usage_increment subscriptionItemId quantity,
                   Console_error ''Error creating usage record:'']))"

text \<open>
  \<^verbatim>\<open>SELECT sp.* FROM subscription_plans sp
   JOIN user_subscriptions us ON us.plan_id = sp.stripe_product_id
   WHERE us.user_id = $1\<close>
\<close>

definition planResult :: "metered_store \<Rightarrow> string \<Rightarrow> subscription_plan list" where
  "planResult st userId =
     [sp. sp \<leftarrow> subscription_plans st, us \<leftarrow> user_subscriptions st,
          us_plan_id us = sp_stripe_product_id sp, us_user_id us = userId]"

text \<open>The prescribers query: the filters that are set, then the limit of the plan's tier.\<close>

definition prescriber_query :: "subscription_plan \<Rightarrow> prescriber_filters \<Rightarrow> prescriber list \<Rightarrow> prescriber list" where
  "prescriber_query plan filters rows =
     (let selected = filter
            (\<lambda>p. (if truthy (filter_state filters)
                   then pr_state p = the (filter_state filters) else True) \<and>
                  (if truthy (filter_specialty filters)
                   then pr_specialty p = the (filter_specialty filters) else True) \<and>
                  (case filter_minPrescriptions filters of
                     None \<Rightarrow> True
                   | Some m \<Rightarrow> if m = 0 then True else m \<le> pr_prescription_count p))
            rows
      in if sp_tier plan = ''basic'' then take 100 selected
         else if sp_tier plan = ''professional'' then take 1000 selected
         else selected)"

text \<open>
  The function as far as the source file gives it: the file ends inside the parameter
  list of the \<open>INSERT\<close>, so what follows the insert (the \<open>return\<close>, the \<open>catch\<close> and the
  \<open>finally\<close> of the function) is not part of the model. \<open>Threw e\<close> is an exception that
  leaves the \<open>try\<close> block; \<open>Reached data\<close> is control at the end of the text, with the
  query's \<open>data\<close> in scope.

  For a usage-based plan whose user has a subscription row the next statement is
  \<^verbatim>\<open>const stripeSubscription = await stripe.subscriptions.retrieve(...)\<close>.
  The module binds \<open>supabaseAuth\<close>, \<open>selfHostedSupabase\<close>, \<open>pgPool\<close> and \<open>stripeService\<close>
  and no \<open>stripe\<close>, so evaluating the name throws a \<open>ReferenceError\<close>: the call of
  \<open>stripeService.createUsageRecord\<close> and the \<open>INSERT INTO api_usage_logs\<close> that follow
  are never reached.
\<close>

datatype 'a outcome = Threw error | Reached 'a

definition getPrescriberDataWithSubscriptionCheck ::
  "metered_store \<Rightarrow> string \<Rightarrow> prescriber_filters \<Rightarrow> prescriber list outcome \<times> effect list" where
  "getPrescriberDataWithSubscriptionCheck st userId filters =
     (if filter (\<lambda>us. us_user_id us = userId \<and> us_subscription_status us = ''active'')
           (user_subscriptions st) = []
      then (Threw (Error ''No active subscription found''), [])
      else
        (case planResult st userId of
           [] \<Rightarrow> (Threw (Error ''Subscription plan not found''), [])
         | plan # _ \<Rightarrow>
             (case prescribers_error st of
                Some e \<Rightarrow> (Threw e, [])
              | None \<Rightarrow>
                  (let data = prescriber_query plan filters (prescribers st)
                   in if \<not> sp_usage_based plan then (Reached data, [])
                      else
                        (case filter (\<lambda>us. us_user_id us = userId) (user_subscriptions st) of
                           [] \<Rightarrow> (Reached data, [])
                         | subscription # _ \<Rightarrow>
                             (Threw (Error ''stripe is not defined''), []))))))"

text \<open>
  A user with an active subscription to a usage-based plan, and a billing client whose
  usage-record call fails.
\<close>

definition metered_sample :: metered_store where
  "metered_sample = \<lparr>
     user_subscriptions = [\<lparr>us_user_id = ''user-1'', us_subscription_status = ''active'',
       us_plan_id = ''prod_metered'', us_stripe_subscription_id = ''sub_1''\<rparr>],
     subscription_plans = [\<lparr>sp_stripe_product_id = ''prod_metered'', sp_tier = ''professional'',
       sp_usage_based = True\<rparr>],
     prescribers = [\<lparr>pr_state = ''PA'', pr_specialty = ''Psychiatry'', pr_prescription_count = 40\<rparr>],
     prescribers_error = None\<rparr>"

definition stripe_down :: billing where
  "stripe_down = \<lparr>create_usage_record = (\<lambda>item quantity. Inl (Error ''connection refused''))\<rparr>"

definition no_filters :: prescriber_filters where
  "no_filters = \<lparr>filter_state = None, filter_specialty = None, filter_minPrescriptions = None\<rparr>"

section \<open>Pattern matching\<close>

lemma lower_char_not_special: "c \<notin> like_special \<Longrightarrow> lower_char c \<notin> like_special"
  by (auto simp: lower_char_def like_special_def split: option.splits if_splits)

lemma fold_case_not_special:
  "set q \<inter> like_special = {} \<Longrightarrow> set (fold_case q) \<inter> like_special = {}"
  unfolding fold_case_def by (induction q) (auto dest: lower_char_not_special)

lemma like_match_percent_iff:
  "like_match (CHR ''%'' # ps) t \<longleftrightarrow> (\<exists>pre s. t = pre @ s \<and> like_match ps s)"
proof (induction t)
  case Nil
  then show ?case by simp
next
  case (Cons c cs)
  show ?case
  proof
    assume "like_match (CHR ''%'' # ps) (c # cs)"
    then consider "like_match ps (c # cs)" | "like_match (CHR ''%'' # ps) cs"
      by auto
    then show "\<exists>pre s. c # cs = pre @ s \<and> like_match ps s"
    proof cases
      case 1
      then have "c # cs = [] @ (c # cs) \<and> like_match ps (c # cs)" by simp
      then show ?thesis by blast
    next
      case 2
      with Cons.IH obtain pre s where "cs = pre @ s" "like_match ps s" by blast
      then have "c # cs = (c # pre) @ s \<and> like_match ps s" by simp
      then show ?thesis by blast
    qed
  next
    assume "\<exists>pre s. c # cs = pre @ s \<and> like_match ps s"
    then obtain pre s where ps: "c # cs = pre @ s" "like_match ps s" by blast
    show "like_match (CHR ''%'' # ps) (c # cs)"
    proof (cases pre)
      case Nil
      with ps show ?thesis by simp
    next
      case (Cons a pre')
      with ps have "cs = pre' @ s" by simp
      with ps(2) Cons.IH have "like_match (CHR ''%'' # ps) cs" by blast
      then show ?thesis by simp
    qed
  qed
qed

lemma like_match_literal_prefix:
  "set p \<inter> like_special = {} \<Longrightarrow>
     like_match (p @ rest) t \<longleftrightarrow> (\<exists>t'. t = p @ t' \<and> like_match rest t')"
proof (induction p arbitrary: t)
  case Nil
  then show ?case by simp
next
  case (Cons a p)
  then have a: "a \<noteq> CHR ''%''" "a \<noteq> CHR ''_''" "a \<noteq> CHR 0x5C"
    and p: "set p \<inter> like_special = {}"
    by (auto simp: like_special_def)
  show ?case
  proof (cases t)
    case Nil
    with a show ?thesis by simp
  next
    case (Cons c cs)
    with a Cons.IH [OF p, of cs] show ?thesis by auto
  qed
qed

lemma like_match_literal:
  "set p \<inter> like_special = {} \<Longrightarrow> like_match p t \<longleftrightarrow> t = p"
  using like_match_literal_prefix [of p "[]" t] by auto

lemma like_match_all: "like_match [CHR ''%''] s"
  by (induction s) auto

lemma like_match_wrapped:
  assumes "set p \<inter> like_special = {}"
  shows "like_match (CHR ''%'' # p @ [CHR ''%'']) t \<longleftrightarrow> sublist p t"
proof -
  have "like_match (CHR ''%'' # p @ [CHR ''%'']) t \<longleftrightarrow>
          (\<exists>pre s. t = pre @ s \<and> like_match (p @ [CHR ''%'']) s)"
    by (rule like_match_percent_iff)
  also have "\<dots> \<longleftrightarrow> (\<exists>pre s. t = pre @ s \<and> (\<exists>t'. s = p @ t'))"
    by (simp only: like_match_literal_prefix [OF assms] like_match_all simp_thms)
  also have "\<dots> \<longleftrightarrow> sublist p t"
    unfolding sublist_def by blast
  finally show ?thesis .
qed

lemma fold_case_wrapped:
  "fold_case (CHR ''%'' # q @ [CHR ''%'']) = CHR ''%'' # fold_case q @ [CHR ''%'']"
  by (simp add: fold_case_def lower_char_def)

lemma ilike_wrapped:
  assumes "set q \<inter> like_special = {}"
  shows "ilike n (CHR ''%'' # q @ [CHR ''%'']) \<longleftrightarrow> contains_ci n q"
  unfolding ilike_def contains_ci_def fold_case_wrapped
  by (rule like_match_wrapped [OF fold_case_not_special [OF assms]])

lemma ilike_literal:
  assumes "set q \<inter> like_special = {}"
  shows "ilike n q \<longleftrightarrow> fold_case n = fold_case q"
  using like_match_literal [OF fold_case_not_special [OF assms], of "fold_case n"]
  by (simp add: ilike_def)

section \<open>Drug suggestions\<close>

lemma drug_suggestions_query_length: "length (drug_suggestions_query t pat) \<le> 10"
  by (simp add: drug_suggestions_query_def)

lemma drug_suggestions_query_distinct: "distinct (drug_suggestions_query t pat)"
  by (simp add: drug_suggestions_query_def distinct_take)

lemma drug_suggestions_query_member:
  assumes "n \<in> set (drug_suggestions_query t pat)"
  shows "ilike n pat \<and> (\<exists>np \<in> set t. np_drug_name np = Some n \<or> np_generic_name np = Some n)"
proof -
  from assms have "n \<in> set (remdups
       (filter (\<lambda>n. ilike n pat) (List.map_filter np_drug_name t) @
        filter (\<lambda>n. ilike n pat) (List.map_filter np_generic_name t)))"
    unfolding drug_suggestions_query_def by (rule in_set_takeD)
  then show ?thesis
    by (auto simp: map_filter_def)
qed

text \<open>
  Claim C10, as amended. An authenticated request whose query \<open>q\<close> has at least two
  characters is answered with status 200 and a list of at most 10 names, no name twice;
  every name is a drug name or a generic name of some prescription row and matches the
  pattern \<open>%q%\<close> under \<open>ILIKE\<close>. When \<open>q\<close> has none of the pattern characters
  (\<open>%\<close>, \<open>_\<close>, backslash), every name contains \<open>q\<close> as a case-insensitive substring.
\<close>

theorem drug_suggestions_sound:
  assumes "2 \<le> length q"
  shows "\<exists>names.
           getDrugSuggestionsHandler prescriptions (Some u) (Some q) =
             json 200 (Suggestions_body names) \<and>
           length names \<le> 10 \<and> distinct names \<and>
           (\<forall>n \<in> set names.
              (\<exists>np \<in> set prescriptions. np_drug_name np = Some n \<or> np_generic_name np = Some n) \<and>
              ilike n (''%'' @ q @ ''%'') \<and>
              (set q \<inter> like_special = {} \<longrightarrow> contains_ci n q))"
proof -
  let ?names = "drug_suggestions_query prescriptions (''%'' @ q @ ''%'')"
  have resp: "getDrugSuggestionsHandler prescriptions (Some u) (Some q) =
                json 200 (Suggestions_body ?names)"
    using assms by (simp add: getDrugSuggestionsHandler_def)
  have each: "(\<exists>np \<in> set prescriptions. np_drug_name np = Some n \<or> np_generic_name np = Some n) \<and>
              ilike n (''%'' @ q @ ''%'') \<and>
              (set q \<inter> like_special = {} \<longrightarrow> contains_ci n q)"
    if n: "n \<in> set ?names" for n
  proof -
    from drug_suggestions_query_member [OF n]
    have m: "ilike n (''%'' @ q @ ''%'')"
      and r: "\<exists>np \<in> set prescriptions. np_drug_name np = Some n \<or> np_generic_name np = Some n"
      by blast+
    have "contains_ci n q" if "set q \<inter> like_special = {}"
      using m ilike_wrapped [OF that, of n] by simp
    with m r show ?thesis by blast
  qed
  from resp each drug_suggestions_query_length [of prescriptions "''%'' @ q @ ''%''"]
    drug_suggestions_query_distinct [of prescriptions "''%'' @ q @ ''%''"]
  show ?thesis by blast
qed

theorem drug_suggestions_sound_witness:
  "2 \<le> length ''alpra'' \<and> set ''alpra'' \<inter> like_special = {} \<and>
   getDrugSuggestionsHandler
     [\<lparr>np_prescription_id = 1, np_npi = Some 1003000126, np_drug_name = Some ''XANAX'',
       np_generic_name = Some ''ALPRAZOLAM'', np_total_claim_count = Some 12\<rparr>]
     (Some ''user-1'') (Some ''alpra'') = json 200 (Suggestions_body [''ALPRAZOLAM'']) \<and>
   contains_ci ''ALPRAZOLAM'' ''alpra''"
proof -
  let ?t = "[\<lparr>np_prescription_id = 1, np_npi = Some 1003000126, np_drug_name = Some ''XANAX'',
       np_generic_name = Some ''ALPRAZOLAM'', np_total_claim_count = Some 12\<rparr>]"
  have h: "2 \<le> length ''alpra''" by simp
  have s: "set ''alpra'' \<inter> like_special = {}" by (simp add: like_special_def)
  have e: "getDrugSuggestionsHandler ?t (Some ''user-1'') (Some ''alpra'') =
             json 200 (Suggestions_body [''ALPRAZOLAM''])"
    by (simp add: getDrugSuggestionsHandler_def drug_suggestions_query_def map_filter_def
        ilike_def fold_case_def lower_char_def)
  from drug_suggestions_sound [OF h, of ?t "''user-1''"] e s
  have "contains_ci ''ALPRAZOLAM'' ''alpra''" by (auto simp: json_def)
  with h s e show ?thesis by simp
qed

text \<open>
  The claim as stated fails for a query made of pattern characters: \<open>__\<close> has two
  characters, and \<open>%__%\<close> matches every name of two characters or more.
\<close>

theorem drug_suggestions_counterexample:
  "getDrugSuggestionsHandler
     [\<lparr>np_prescription_id = 1, np_npi = Some 1003000126, np_drug_name = Some ''XANAX'',
       np_generic_name = Some ''ALPRAZOLAM'', np_total_claim_count = Some 12\<rparr>]
     (Some ''user-1'') (Some ''__'') = json 200 (Suggestions_body [''XANAX'', ''ALPRAZOLAM'']) \<and>
   2 \<le> length ''__'' \<and> \<not> contains_ci ''XANAX'' ''__''"
  by (simp add: getDrugSuggestionsHandler_def drug_suggestions_query_def map_filter_def
      ilike_def fold_case_def lower_char_def contains_ci_def sublist_Cons_right)

section \<open>Evaluating the sample store\<close>

text \<open>
  Distances are compared through their squares, so that a comparison of two concrete
  distances is a comparison of rational numbers.
\<close>

lemma ST_Distance_le_iff:
  "ST_Distance a b \<le> ST_Distance c d \<longleftrightarrow>
     (lon a - lon b)\<^sup>2 + (lat a - lat b)\<^sup>2 \<le> (lon c - lon d)\<^sup>2 + (lat c - lat d)\<^sup>2"
  by (simp add: ST_Distance_def)

lemma ST_Distance_eq_iff:
  "ST_Distance a b = ST_Distance c d \<longleftrightarrow>
     (lon a - lon b)\<^sup>2 + (lat a - lat b)\<^sup>2 = (lon c - lon d)\<^sup>2 + (lat c - lat d)\<^sup>2"
  by (simp add: ST_Distance_def)

lemma ST_DWithin_iff:
  "0 \<le> d \<Longrightarrow> ST_DWithin a b d \<longleftrightarrow> (lon a - lon b)\<^sup>2 + (lat a - lat b)\<^sup>2 \<le> d\<^sup>2"
  unfolding ST_DWithin_def ST_Distance_def
  by (metis real_sqrt_le_iff real_sqrt_abs abs_of_nonneg)

lemmas sample_rows = zip_19104_def zip_19103_def zip_90012_def provider_1_def provider_2_def
  provider_3_def provider_4_def address_1_def address_2_def address_3_def address_4_def
  rx_1_def rx_2_def rx_3_def rx_4_def rx_5_def

lemma sample_zip: "zip_lookup sample_db ''19104'' = [zip_19104]"
  by (simp add: zip_lookup_def sample_db_def sample_rows sql_eq_def)

lemma sample_joined:
  "joined sample_db =
     [(provider_1, address_1, rx_1, zip_19104), (provider_1, address_1, rx_2, zip_19104),
      (provider_2, address_2, rx_3, zip_19103), (provider_3, address_3, rx_4, zip_90012),
      (provider_4, address_4, rx_5, zip_19104)]"
  by (simp add: joined_def sample_db_def sample_rows sql_eq_def)

lemma sample_matching:
  "matching_rows sample_db sample_search (uz_geom zip_19104) =
     [(provider_1, address_1, rx_1, zip_19104), (provider_1, address_1, rx_2, zip_19104),
      (provider_2, address_2, rx_3, zip_19103), (provider_3, address_3, rx_4, zip_90012)]"
  unfolding matching_rows_def baseQuery_def sample_joined
  by (simp add: sample_search_def sample_rows where_clause_def radiusMeters_def ST_DWithin_iff
      power2_eq_square drug_predicate_def sql_ilike_def ilike_def fold_case_def lower_char_def
      sql_ge_def truthy_def)

lemma sample_count:
  "countQuery (matching_rows sample_db sample_search (uz_geom zip_19104)) = 3"
  unfolding sample_matching by (simp add: countQuery_def sample_rows)

lemma sample_final:
  "finalQuery (matching_rows sample_db sample_search (uz_geom zip_19104)) (uz_geom zip_19104)
     (Some ''distance'') 10 0 =
   map (select_list (uz_geom zip_19104))
     [(provider_1, address_1, rx_1, zip_19104), (provider_1, address_1, rx_2, zip_19104),
      (provider_2, address_2, rx_3, zip_19103), (provider_3, address_3, rx_4, zip_90012)]"
  unfolding sample_matching
  by (simp add: finalQuery_def order_by_def select_list_def sample_rows ST_Distance_le_iff
      ST_Distance_eq_iff power2_eq_square)

lemma sample_result:
  "search_from sample_db sample_search (uz_geom zip_19104) =
     \<lparr>data = map format_row (map (select_list (uz_geom zip_19104))
        [(provider_1, address_1, rx_1, zip_19104), (provider_1, address_1, rx_2, zip_19104),
         (provider_2, address_2, rx_3, zip_19103), (provider_3, address_3, rx_4, zip_90012)]),
      totalCount = 3, nextCursor = None\<rparr>"
proof -
  have p: "sortBy sample_search = Some ''distance''" "limit_of sample_search = 10"
    "offset_of sample_search = 0"
    by (simp_all add: sample_search_def limit_of_def offset_of_def)
  show ?thesis
    unfolding search_from_def Let_def p sample_count sample_final by simp
qed

lemma sample_ids:
  "page_ids (search_from sample_db sample_search (uz_geom zip_19104)) =
     [Some (JString ''1000000001''), Some (JString ''1000000001''),
      Some (JString ''1000000002''), Some (JString ''1000000003'')]"
  unfolding sample_result
  by (simp add: page_ids_def format_row_def select_list_def toString_def sample_rows)

section \<open>Provider search\<close>

lemma findProviders_Inr:
  assumes "findProviders db params = Inr r"
  obtains zipRow rest where "zip_lookup db (zipCode params) = zipRow # rest"
    and "r = search_from db params (uz_geom zipRow)"
  using assms by (auto simp: findProviders_def split: list.splits)

lemma set_joined:
  "(nd, na, np, uz) \<in> set (joined db) \<longleftrightarrow>
     nd \<in> set (npi_details db) \<and> na \<in> set (npi_addresses db) \<and>
     np \<in> set (npi_prescriptions db) \<and> uz \<in> set (us_zipcodes db) \<and>
     nd_npi nd = na_npi na \<and> np_npi np = Some (nd_npi nd) \<and>
     na_postal_code na \<noteq> None \<and> na_postal_code na = uz_zip_code uz"
  by (auto simp: joined_def sql_eq_def split: option.splits)

lemma countQuery_card:
  "countQuery rows = card ((\<lambda>(nd, na, np, uz). nd_npi nd) ` set rows)"
  by (simp add: countQuery_def length_remdups_card_conv)

lemma search_from_no_rows:
  assumes "matching_rows db params g = []"
  shows "search_from db params g = \<lparr>data = [], totalCount = 0, nextCursor = None\<rparr>"
  using assms
  by (simp add: search_from_def Let_def countQuery_def finalQuery_def order_by_def)

lemma countQuery_0: "countQuery rows = 0 \<longleftrightarrow> rows = []"
  by (simp add: countQuery_def)

lemma matching_rows_without_minClaims:
  "minClaims params = None \<Longrightarrow> matching_rows db params g = []"
  by (auto simp: matching_rows_def baseQuery_def where_clause_def sql_ge_def filter_empty_conv
      split: option.splits)

text \<open>
  Claim C6. Let \<open>offset\<close> be the cursor of the request, and 0 when the request has none.
  A search that returns has \<open>nextCursor = offset + (rows returned)\<close> when that number is
  below \<open>totalCount\<close> and no cursor otherwise, so the cursor is absent exactly when
  \<open>offset + length page \<ge> totalCount\<close>; and when no joined row passes the filters (when
  the count is 0) the result is \<open>totalCount = 0\<close>, an empty page and no cursor.
\<close>

theorem nextCursor_rule:
  assumes "findProviders db params = Inr r"
    and "offset = (case cursor params of None \<Rightarrow> 0 | Some c \<Rightarrow> c)"
  shows "nextCursor r =
           (if offset + length (data r) < totalCount r
            then Some (offset + length (data r)) else None) \<and>
         (nextCursor r = None \<longleftrightarrow> totalCount r \<le> offset + length (data r)) \<and>
         (\<forall>zipRow rest. zip_lookup db (zipCode params) = zipRow # rest \<longrightarrow>
            matching_rows db params (uz_geom zipRow) = [] \<longrightarrow>
            totalCount r = 0 \<and> data r = [] \<and> nextCursor r = None) \<and>
         (totalCount r = 0 \<longrightarrow> data r = [] \<and> nextCursor r = None)"
proof -
  from assms(1) obtain zipRow rest
    where z: "zip_lookup db (zipCode params) = zipRow # rest"
      and r: "r = search_from db params (uz_geom zipRow)"
    by (rule findProviders_Inr)
  have o: "offset_of params = offset"
    by (simp add: offset_of_def assms(2))
  have c: "nextCursor r =
           (if offset + length (data r) < totalCount r
            then Some (offset + length (data r)) else None)"
    unfolding r by (simp add: search_from_def Let_def o)
  then have n: "nextCursor r = None \<longleftrightarrow> totalCount r \<le> offset + length (data r)"
    by (simp add: not_less)
  have e: "totalCount r = 0 \<and> data r = [] \<and> nextCursor r = None"
    if "matching_rows db params (uz_geom zipRow) = []"
    unfolding r by (simp add: search_from_no_rows [OF that])
  have "matching_rows db params (uz_geom zipRow) = []" if "totalCount r = 0"
    using that unfolding r by (simp add: search_from_def Let_def countQuery_0)
  with e have t: "totalCount r = 0 \<longrightarrow> data r = [] \<and> nextCursor r = None"
    by blast
  from c n e z t show ?thesis by auto
qed

lemma sample_findProviders:
  "zipCode params = ''19104'' \<Longrightarrow>
     findProviders sample_db params = Inr (search_from sample_db params (uz_geom zip_19104))"
  by (simp add: findProviders_def sample_zip)

lemma sample_no_aspirin:
  "matching_rows sample_db (sample_search\<lparr>drugName := Some ''aspirin''\<rparr>) (uz_geom zip_19104) = []"
  unfolding matching_rows_def baseQuery_def sample_joined
  by (simp add: sample_search_def sample_rows where_clause_def drug_predicate_def
      sql_ilike_def ilike_def fold_case_def lower_char_def)

lemma sample_matching_page:
  "matching_rows sample_db (sample_search\<lparr>cursor := c, limit := l\<rparr>) g =
     matching_rows sample_db sample_search g"
  by (simp add: matching_rows_def)

lemma sample_final_page:
  "finalQuery (matching_rows sample_db sample_search (uz_geom zip_19104)) (uz_geom zip_19104)
     (Some ''distance'') l c =
   take l (drop c (finalQuery (matching_rows sample_db sample_search (uz_geom zip_19104))
     (uz_geom zip_19104) (Some ''distance'') 10 0))"
proof -
  have "length (matching_rows sample_db sample_search (uz_geom zip_19104)) = 4"
    by (simp add: sample_matching)
  then have "length (order_by (Some ''distance'') (remdups (map (select_list (uz_geom zip_19104))
      (matching_rows sample_db sample_search (uz_geom zip_19104))))) \<le> 10"
    using length_remdups_leq [of "map (select_list (uz_geom zip_19104))
      (matching_rows sample_db sample_search (uz_geom zip_19104))"]
    by (simp add: order_by_def)
  then show ?thesis
    by (simp add: finalQuery_def)
qed

lemma sample_page:
  "search_from sample_db (sample_search\<lparr>cursor := Some c, limit := Some l\<rparr>) (uz_geom zip_19104) =
     (let page = take l (drop c (map (select_list (uz_geom zip_19104))
        [(provider_1, address_1, rx_1, zip_19104), (provider_1, address_1, rx_2, zip_19104),
         (provider_2, address_2, rx_3, zip_19103), (provider_3, address_3, rx_4, zip_90012)]))
      in \<lparr>data = map format_row page, totalCount = 3,
          nextCursor = (if c + length page < 3 then Some (c + length page) else None)\<rparr>)"
proof -
  have p: "sortBy (sample_search\<lparr>cursor := Some c, limit := Some l\<rparr>) = Some ''distance''"
    "limit_of (sample_search\<lparr>cursor := Some c, limit := Some l\<rparr>) = l"
    "offset_of (sample_search\<lparr>cursor := Some c, limit := Some l\<rparr>) = c"
    by (simp_all add: sample_search_def limit_of_def offset_of_def)
  show ?thesis
    unfolding search_from_def Let_def p sample_matching_page sample_count
      sample_final_page [of l c] sample_final
    by (rule refl)
qed

theorem nextCursor_rule_witness:
  "findProviders sample_db (sample_search\<lparr>cursor := Some 1, limit := Some 1\<rparr>) =
     Inr (search_from sample_db (sample_search\<lparr>cursor := Some 1, limit := Some 1\<rparr>) (uz_geom zip_19104)) \<and>
   cursor (sample_search\<lparr>cursor := Some 1, limit := Some 1\<rparr>) = Some 1 \<and>
   length (data (search_from sample_db (sample_search\<lparr>cursor := Some 1, limit := Some 1\<rparr>) (uz_geom zip_19104))) = 1 \<and>
   totalCount (search_from sample_db (sample_search\<lparr>cursor := Some 1, limit := Some 1\<rparr>) (uz_geom zip_19104)) = 3 \<and>
   nextCursor (search_from sample_db (sample_search\<lparr>cursor := Some 1, limit := Some 1\<rparr>) (uz_geom zip_19104)) = Some 2 \<and>
   findProviders sample_db (sample_search\<lparr>cursor := Some 2, limit := Some 1\<rparr>) =
     Inr (search_from sample_db (sample_search\<lparr>cursor := Some 2, limit := Some 1\<rparr>) (uz_geom zip_19104)) \<and>
   cursor (sample_search\<lparr>cursor := Some 2, limit := Some 1\<rparr>) = Some 2 \<and>
   length (data (search_from sample_db (sample_search\<lparr>cursor := Some 2, limit := Some 1\<rparr>) (uz_geom zip_19104))) = 1 \<and>
   totalCount (search_from sample_db (sample_search\<lparr>cursor := Some 2, limit := Some 1\<rparr>) (uz_geom zip_19104)) = 3 \<and>
   nextCursor (search_from sample_db (sample_search\<lparr>cursor := Some 2, limit := Some 1\<rparr>) (uz_geom zip_19104)) = None \<and>
   findProviders sample_db sample_search =
     Inr (search_from sample_db sample_search (uz_geom zip_19104)) \<and>
   cursor sample_search = None \<and>
   length (data (search_from sample_db sample_search (uz_geom zip_19104))) = 4 \<and>
   totalCount (search_from sample_db sample_search (uz_geom zip_19104)) = 3 \<and>
   nextCursor (search_from sample_db sample_search (uz_geom zip_19104)) = None \<and>
   zip_lookup sample_db (zipCode (sample_search\<lparr>drugName := Some ''aspirin''\<rparr>)) = [zip_19104] \<and>
   matching_rows sample_db (sample_search\<lparr>drugName := Some ''aspirin''\<rparr>) (uz_geom zip_19104) = [] \<and>
   findProviders sample_db (sample_search\<lparr>drugName := Some ''aspirin''\<rparr>) =
     Inr \<lparr>data = [], totalCount = 0, nextCursor = None\<rparr>"
proof -
  let ?a = "sample_search\<lparr>drugName := Some ''aspirin''\<rparr>"
  let ?b = "sample_search\<lparr>cursor := Some 1, limit := Some 1\<rparr>"
  let ?c = "sample_search\<lparr>cursor := Some 2, limit := Some 1\<rparr>"
  let ?ra = "search_from sample_db ?a (uz_geom zip_19104)"
  let ?rb = "search_from sample_db ?b (uz_geom zip_19104)"
  let ?rc = "search_from sample_db ?c (uz_geom zip_19104)"
  let ?rd = "search_from sample_db sample_search (uz_geom zip_19104)"
  have za: "zip_lookup sample_db (zipCode ?a) = [zip_19104]"
    by (simp add: sample_search_def sample_zip)
  have fa: "findProviders sample_db ?a = Inr ?ra"
    by (rule sample_findProviders) (simp add: sample_search_def)
  have fb: "findProviders sample_db ?b = Inr ?rb"
    by (rule sample_findProviders) (simp add: sample_search_def)
  have fc: "findProviders sample_db ?c = Inr ?rc"
    by (rule sample_findProviders) (simp add: sample_search_def)
  have fd: "findProviders sample_db sample_search = Inr ?rd"
    by (rule sample_findProviders) (simp add: sample_search_def)
  have ca: "0 = (case cursor ?a of None \<Rightarrow> 0 | Some c \<Rightarrow> c)"
    and cb: "cursor ?b = Some 1" "1 = (case cursor ?b of None \<Rightarrow> 0 | Some c \<Rightarrow> c)"
    and cc: "cursor ?c = Some 2" "2 = (case cursor ?c of None \<Rightarrow> 0 | Some c \<Rightarrow> c)"
    and cd: "cursor sample_search = None"
      "0 = (case cursor sample_search of None \<Rightarrow> 0 | Some c \<Rightarrow> c)"
    by (simp_all add: sample_search_def)
  from nextCursor_rule [OF fa ca] za sample_no_aspirin
  have "totalCount ?ra = 0 \<and> data ?ra = [] \<and> nextCursor ?ra = None"
    by blast
  then have ra: "?ra = \<lparr>data = [], totalCount = 0, nextCursor = None\<rparr>"
    by (cases ?ra) simp
  have lb: "length (data ?rb) = 1" and tb: "totalCount ?rb = 3"
    and lc: "length (data ?rc) = 1" and tc: "totalCount ?rc = 3"
    by (simp_all add: sample_page)
  have ld: "length (data ?rd) = 4" and td: "totalCount ?rd = 3"
    by (simp_all add: sample_result)
  from nextCursor_rule [OF fb cb(2)] lb tb have nb: "nextCursor ?rb = Some 2"
    by simp
  from nextCursor_rule [OF fc cc(2)] lc tc have nc: "nextCursor ?rc = None"
    by simp
  from nextCursor_rule [OF fd cd(2)] ld td have nd: "nextCursor ?rd = None"
    by simp
  from fa [unfolded ra] have fa': "findProviders sample_db ?a =
      Inr \<lparr>data = [], totalCount = 0, nextCursor = None\<rparr>" .
  show ?thesis
    using fb cb(1) lb tb nb fc cc(1) lc tc nc fd cd(1) ld td nd za sample_no_aspirin fa'
    by (intro conjI)
qed

section \<open>What the search does not look at\<close>

lemma joined_ignores_deactivation:
  "joined (db\<lparr>npi_details := map (nd_npi_deactivation_date_update f) (npi_details db)\<rparr>) =
     map (\<lambda>(nd, na, np, uz). (nd_npi_deactivation_date_update f nd, na, np, uz)) (joined db)"
  by (simp add: joined_def map_concat comp_def if_distrib [of "map _"] cong: if_cong)

lemma where_clause_ignores_deactivation:
  "where_clause g r d m t (nd_npi_deactivation_date_update f nd, na, np, uz) =
     where_clause g r d m t (nd, na, np, uz)"
  by (simp add: where_clause_def)

lemma select_list_ignores_deactivation:
  "select_list g (nd_npi_deactivation_date_update f nd, na, np, uz) = select_list g (nd, na, np, uz)"
  by (simp add: select_list_def)

lemma findProviders_ignores_deactivation:
  "findProviders (db\<lparr>npi_details := map (nd_npi_deactivation_date_update f) (npi_details db)\<rparr>) params =
     findProviders db params"
proof -
  let ?db = "db\<lparr>npi_details := map (nd_npi_deactivation_date_update f) (npi_details db)\<rparr>"
  let ?u = "\<lambda>(nd, na, np, uz). (nd_npi_deactivation_date_update f nd, na, np, uz)"
  have z: "zip_lookup ?db z = zip_lookup db z" for z
    by (simp add: zip_lookup_def)
  have w: "where_clause g r d m t (?u x) = where_clause g r d m t x" for g r d m t x
    by (cases x) (simp add: where_clause_ignores_deactivation)
  have m: "matching_rows ?db params g = map ?u (matching_rows db params g)" for g
    unfolding matching_rows_def baseQuery_def joined_ignores_deactivation filter_map comp_def w ..
  have c: "countQuery (map ?u rows) = countQuery rows" for rows
    by (simp add: countQuery_def comp_def split_def)
  have "select_list g (?u x) = select_list g x" for g x
    by (cases x) (simp add: select_list_ignores_deactivation)
  then have s: "map (select_list g) (map ?u rows) = map (select_list g) rows" for g rows
    by (simp add: comp_def)
  have f: "finalQuery (map ?u rows) g sb l c = finalQuery rows g sb l c" for rows g sb l c
    unfolding finalQuery_def s ..
  have sf: "search_from ?db params g = search_from db params g" for g
    unfolding search_from_def Let_def m c f ..
  show ?thesis
    by (simp add: findProviders_def z sf split: list.splits)
qed

text \<open>
  A drug name without pattern characters matches the names that equal it up to case.
\<close>

lemma drug_predicate_literal:
  assumes "set drug \<inter> like_special = {}"
  shows "drug_predicate np drug \<longleftrightarrow>
           (\<exists>n. (np_drug_name np = Some n \<or> np_generic_name np = Some n) \<and>
                fold_case n = fold_case drug)"
  by (auto simp: drug_predicate_def sql_ilike_def ilike_literal [OF assms] split: option.splits)

text \<open>
  Longitudes and latitudes differ by at most 360 and 180, so any two points of the globe
  are within \<open>ST_DWithin\<close> of each other for every radius of a mile or more.
\<close>

lemma ST_DWithin_whole_globe:
  assumes "1 \<le> miles"
    and "\<bar>lon a\<bar> \<le> 180" "\<bar>lon b\<bar> \<le> 180" "\<bar>lat a\<bar> \<le> 90" "\<bar>lat b\<bar> \<le> 90"
  shows "ST_DWithin a b (radiusMeters miles)"
proof -
  have "\<bar>lon a - lon b\<bar> \<le> 360" "\<bar>lat a - lat b\<bar> \<le> 180"
    using assms by linarith+
  then have "(lon a - lon b)\<^sup>2 \<le> 360\<^sup>2" "(lat a - lat b)\<^sup>2 \<le> 180\<^sup>2"
    using abs_le_square_iff [of "lon a - lon b" "360::real"]
      abs_le_square_iff [of "lat a - lat b" "180::real"]
    by simp_all
  then have "(lon a - lon b)\<^sup>2 + (lat a - lat b)\<^sup>2 \<le> 1609.34\<^sup>2"
    by (simp add: power2_eq_square)
  also have "\<dots> \<le> (radiusMeters miles)\<^sup>2"
  proof -
    have "1 * 1 \<le> miles * miles"
      using assms(1) by (intro mult_mono) simp_all
    then show ?thesis
      by (simp add: radiusMeters_def power2_eq_square)
  qed
  finally show ?thesis
    using assms(1) by (simp add: ST_DWithin_iff radiusMeters_def)
qed

section \<open>The sample search\<close>

lemma sample_search_found:
  "findProviders sample_db sample_search = Inr (search_from sample_db sample_search (uz_geom zip_19104))"
  by (rule sample_findProviders) (simp add: sample_search_def)

lemma sample_page_ids:
  "page_ids (search_from sample_db (sample_search\<lparr>cursor := Some c, limit := Some l\<rparr>)
      (uz_geom zip_19104)) =
   take l (drop c [Some (JString ''1000000001''), Some (JString ''1000000001''),
      Some (JString ''1000000002''), Some (JString ''1000000003'')])"
proof -
  have i: "map (\<lambda>view. map_of view ''id'') (map format_row (map (select_list (uz_geom zip_19104))
        [(provider_1, address_1, rx_1, zip_19104), (provider_1, address_1, rx_2, zip_19104),
         (provider_2, address_2, rx_3, zip_19103), (provider_3, address_3, rx_4, zip_90012)])) =
     [Some (JString ''1000000001''), Some (JString ''1000000001''),
      Some (JString ''1000000002''), Some (JString ''1000000003'')]"
    using sample_ids by (simp only: sample_result page_ids_def search_result.simps)
  show ?thesis
    by (simp only: sample_page Let_def page_ids_def search_result.simps
        take_map [symmetric] drop_map [symmetric] i)
qed

lemma sample_total: "totalCount (search_from sample_db sample_search (uz_geom zip_19104)) = 3"
  by (simp add: sample_result)

text \<open>
  Claim C1 fails on the code: no condition of the query reads \<open>npi_deactivation_date\<close>
  (see \<open>findProviders_ignores_deactivation\<close>). In the sample store provider 1000000002
  has a deactivation date, and the search lists it and counts it.
\<close>

theorem deactivated_provider_is_returned:
  "provider_2 \<in> set (npi_details sample_db) \<and>
   nd_npi provider_2 = 1000000002 \<and>
   nd_npi_deactivation_date provider_2 = Some ''2020-01-15'' \<and>
   findProviders sample_db sample_search = Inr (search_from sample_db sample_search (uz_geom zip_19104)) \<and>
   page_ids (search_from sample_db sample_search (uz_geom zip_19104)) =
     [Some (JString ''1000000001''), Some (JString ''1000000001''),
      Some (JString ''1000000002''), Some (JString ''1000000003'')] \<and>
   totalCount (search_from sample_db sample_search (uz_geom zip_19104)) = 3"
proof -
  have "provider_2 \<in> set (npi_details sample_db)"
    by (simp add: sample_db_def)
  moreover have "nd_npi provider_2 = 1000000002"
    "nd_npi_deactivation_date provider_2 = Some ''2020-01-15''"
    by (simp_all add: provider_2_def)
  ultimately show ?thesis
    using sample_search_found sample_ids sample_total by (intro conjI)
qed

text \<open>
  Claim C2 fails on the code: \<open>drugName\<close> is passed to \<open>ILIKE\<close> as it is, without the
  \<open>%\<close> on each side that the taxonomy condition and the drug suggestions add, so a
  name must equal the drug name up to case (see \<open>drug_predicate_literal\<close>). The row
  \<open>SERTRALINE HCL\<close> contains \<open>sertraline\<close> and does not pass.
\<close>

theorem drug_name_must_match_whole:
  "(provider_4, address_4, rx_5, zip_19104) \<in> set (joined sample_db) \<and>
   np_drug_name rx_5 = Some ''SERTRALINE HCL'' \<and>
   np_generic_name rx_5 = Some ''SERTRALINE HCL'' \<and>
   contains_ci ''SERTRALINE HCL'' ''sertraline'' \<and>
   \<not> drug_predicate rx_5 ''sertraline'' \<and>
   findProviders sample_db sample_search = Inr (search_from sample_db sample_search (uz_geom zip_19104)) \<and>
   Some (JString ''1000000004'') \<notin> set (page_ids (search_from sample_db sample_search (uz_geom zip_19104))) \<and>
   totalCount (search_from sample_db sample_search (uz_geom zip_19104)) = 3"
proof -
  have "(provider_4, address_4, rx_5, zip_19104) \<in> set (joined sample_db)"
    by (simp add: sample_joined)
  moreover have "np_drug_name rx_5 = Some ''SERTRALINE HCL''"
    "np_generic_name rx_5 = Some ''SERTRALINE HCL''"
    by (simp_all add: rx_5_def)
  moreover have "contains_ci ''SERTRALINE HCL'' ''sertraline''"
    by (simp add: contains_ci_def fold_case_def lower_char_def sublist_Cons_right)
  moreover have "\<not> drug_predicate rx_5 ''sertraline''"
    by (simp add: drug_predicate_def rx_5_def sql_ilike_def ilike_def fold_case_def lower_char_def)
  moreover have "Some (JString ''1000000004'') \<notin> set (page_ids (search_from sample_db sample_search (uz_geom zip_19104)))"
    unfolding sample_ids by simp
  ultimately show ?thesis
    using sample_search_found sample_total by (intro conjI)
qed

text \<open>
  Claim C3 fails on the code: \<open>SELECT DISTINCT\<close> ranges over the whole select list,
  which holds the claim count of the prescription row, while the count is of distinct
  provider numbers. Provider 1000000001 has two qualifying rows: a page of ten lists
  it twice, and pages of one list it at cursors 0 and 1, then provider 1000000002 at
  cursor 2, where the cursor ends (3 is not below the count of 3) before provider
  1000000003 was listed.
\<close>

theorem pages_repeat_and_skip:
  "findProviders sample_db sample_search = Inr (search_from sample_db sample_search (uz_geom zip_19104)) \<and>
   page_ids (search_from sample_db sample_search (uz_geom zip_19104)) =
     [Some (JString ''1000000001''), Some (JString ''1000000001''),
      Some (JString ''1000000002''), Some (JString ''1000000003'')] \<and>
   totalCount (search_from sample_db sample_search (uz_geom zip_19104)) = 3 \<and>
   findProviders sample_db (sample_search\<lparr>cursor := Some 0, limit := Some 1\<rparr>) =
     Inr (search_from sample_db (sample_search\<lparr>cursor := Some 0, limit := Some 1\<rparr>) (uz_geom zip_19104)) \<and>
   page_ids (search_from sample_db (sample_search\<lparr>cursor := Some 0, limit := Some 1\<rparr>) (uz_geom zip_19104)) = [Some (JString ''1000000001'')] \<and>
   nextCursor (search_from sample_db (sample_search\<lparr>cursor := Some 0, limit := Some 1\<rparr>) (uz_geom zip_19104)) = Some 1 \<and>
   findProviders sample_db (sample_search\<lparr>cursor := Some 1, limit := Some 1\<rparr>) =
     Inr (search_from sample_db (sample_search\<lparr>cursor := Some 1, limit := Some 1\<rparr>) (uz_geom zip_19104)) \<and>
   page_ids (search_from sample_db (sample_search\<lparr>cursor := Some 1, limit := Some 1\<rparr>) (uz_geom zip_19104)) = [Some (JString ''1000000001'')] \<and>
   nextCursor (search_from sample_db (sample_search\<lparr>cursor := Some 1, limit := Some 1\<rparr>) (uz_geom zip_19104)) = Some 2 \<and>
   findProviders sample_db (sample_search\<lparr>cursor := Some 2, limit := Some 1\<rparr>) =
     Inr (search_from sample_db (sample_search\<lparr>cursor := Some 2, limit := Some 1\<rparr>) (uz_geom zip_19104)) \<and>
   page_ids (search_from sample_db (sample_search\<lparr>cursor := Some 2, limit := Some 1\<rparr>) (uz_geom zip_19104)) = [Some (JString ''1000000002'')] \<and>
   nextCursor (search_from sample_db (sample_search\<lparr>cursor := Some 2, limit := Some 1\<rparr>) (uz_geom zip_19104)) = None"
proof -
  have f: "findProviders sample_db (sample_search\<lparr>cursor := Some c, limit := Some l\<rparr>) =
      Inr (search_from sample_db (sample_search\<lparr>cursor := Some c, limit := Some l\<rparr>)
        (uz_geom zip_19104))" for c l
    by (rule sample_findProviders) (simp add: sample_search_def)
  have p0: "page_ids (search_from sample_db (sample_search\<lparr>cursor := Some 0, limit := Some 1\<rparr>) (uz_geom zip_19104)) = [Some (JString ''1000000001'')]"
    and p1: "page_ids (search_from sample_db (sample_search\<lparr>cursor := Some 1, limit := Some 1\<rparr>) (uz_geom zip_19104)) = [Some (JString ''1000000001'')]"
    and p2: "page_ids (search_from sample_db (sample_search\<lparr>cursor := Some 2, limit := Some 1\<rparr>) (uz_geom zip_19104)) = [Some (JString ''1000000002'')]"
    unfolding sample_page_ids by simp_all
  have n0: "nextCursor (search_from sample_db (sample_search\<lparr>cursor := Some 0, limit := Some 1\<rparr>) (uz_geom zip_19104)) = Some 1"
    and n1: "nextCursor (search_from sample_db (sample_search\<lparr>cursor := Some 1, limit := Some 1\<rparr>) (uz_geom zip_19104)) = Some 2"
    and n2: "nextCursor (search_from sample_db (sample_search\<lparr>cursor := Some 2, limit := Some 1\<rparr>) (uz_geom zip_19104)) = None"
    unfolding sample_page Let_def by simp_all
  show ?thesis
    using sample_search_found sample_ids sample_total f [where c = 0 and l = 1] p0 n0
      f [where c = 1 and l = 1] p1 n1 f [where c = 2 and l = 1] p2 n2
    by (intro conjI)
qed

text \<open>
  Claim C8 fails on the code: the radius is converted to meters, and \<open>ST_DWithin\<close>
  compares it with a distance between geometry points, which is in degrees. The
  centroid of 90012 (Los Angeles) is less than 44 degrees from that of 19104
  (Philadelphia), so it is within \<open>16093.4\<close>, and the provider there is in the result of a
  10 mile search (see \<open>ST_DWithin_whole_globe\<close>: no point of the globe is ever excluded).
\<close>

theorem radius_is_compared_in_degrees:
  "radiusMeters 10 = 16093.4 \<and>
   uz_geom zip_19104 = \<lparr>lon = -75.19, lat = 39.95\<rparr> \<and>
   uz_geom zip_90012 = \<lparr>lon = -118.24, lat = 34.06\<rparr> \<and>
   ST_DWithin (uz_geom zip_90012) (uz_geom zip_19104) 44 \<and>
   ST_DWithin (uz_geom zip_90012) (uz_geom zip_19104) (radiusMeters 10) \<and>
   findProviders sample_db sample_search = Inr (search_from sample_db sample_search (uz_geom zip_19104)) \<and>
   page_ids (search_from sample_db sample_search (uz_geom zip_19104)) =
     [Some (JString ''1000000001''), Some (JString ''1000000001''),
      Some (JString ''1000000002''), Some (JString ''1000000003'')]"
proof -
  have "radiusMeters 10 = 16093.4"
    by (simp add: radiusMeters_def)
  moreover have "uz_geom zip_19104 = \<lparr>lon = -75.19, lat = 39.95\<rparr>"
    "uz_geom zip_90012 = \<lparr>lon = -118.24, lat = 34.06\<rparr>"
    by (simp_all add: zip_19104_def zip_90012_def)
  moreover have "ST_DWithin (uz_geom zip_90012) (uz_geom zip_19104) 44"
    "ST_DWithin (uz_geom zip_90012) (uz_geom zip_19104) (radiusMeters 10)"
    by (simp_all add: radiusMeters_def zip_19104_def zip_90012_def ST_DWithin_iff power2_eq_square)
  ultimately show ?thesis
    using sample_search_found sample_ids by (intro conjI)
qed

lemma format_row_keys:
  "map fst (format_row row) =
     [''id'', ''npi'', ''name'', ''first_name'', ''last_name'', ''title'', ''specialties'',
      ''city'', ''state'', ''location'', ''rating'', ''review_count'', ''availability'',
      ''latitude'', ''longitude'']"
  by (simp add: format_row_def)

lemma ST_Distance_eq_const_iff:
  "0 \<le> d \<Longrightarrow> ST_Distance a b = d \<longleftrightarrow> (lon a - lon b)\<^sup>2 + (lat a - lat b)\<^sup>2 = d\<^sup>2"
  unfolding ST_Distance_def
  by (metis real_sqrt_eq_iff real_sqrt_abs abs_of_nonneg)

lemma sample_distances:
  "ST_Distance (uz_geom zip_19104) (uz_geom zip_19104) = 0"
  "ST_Distance (uz_geom zip_19103) (uz_geom zip_19104) = 0.02"
  by (subst ST_Distance_eq_const_iff; simp add: sample_rows power2_eq_square)+

lemma sample_columns:
  "map (\<lambda>row. (npi row, phone row, total_claim_count row, city row, state row))
     (finalQuery (matching_rows sample_db sample_search (uz_geom zip_19104)) (uz_geom zip_19104)
        (Some ''distance'') 10 0) =
   [(1000000001, Some ''2155550101'', Some 25, Some ''PHILADELPHIA'', Some ''PA''),
    (1000000001, Some ''2155550101'', Some 11, Some ''PHILADELPHIA'', Some ''PA''),
    (1000000002, None, Some 40, None, None),
    (1000000003, Some ''2135550103'', Some 30, Some ''LOS ANGELES'', Some ''CA'')]"
  unfolding sample_final
  by (simp add: select_list_def sample_rows)

lemma sample_column_distance:
  "map distance_meters (take 3
     (finalQuery (matching_rows sample_db sample_search (uz_geom zip_19104)) (uz_geom zip_19104)
        (Some ''distance'') 10 0)) = [0, 0, 0.02]"
  unfolding sample_final
  by (simp add: select_list_def sample_distances)

lemma sample_view_1:
  "format_row (select_list (uz_geom zip_19104) (provider_1, address_1, rx_1, zip_19104)) =
     [(''id'', JString ''1000000001''), (''npi'', JString ''1000000001''),
      (''name'', JString ''JANE DOE''), (''first_name'', JString ''JANE''),
      (''last_name'', JString ''DOE''), (''title'', JString ''MD''),
      (''specialties'', JArray [JString ''Psychiatry & Neurology'', JString ''Psychiatry'']),
      (''city'', JString ''PHILADELPHIA''), (''state'', JString ''PA''),
      (''location'', JString ''3400 SPRUCE ST, PHILADELPHIA, PA 19104''),
      (''rating'', JNumber 0), (''review_count'', JNumber 0),
      (''availability'', JString ''N/A''),
      (''latitude'', JNumber 39.95), (''longitude'', JNumber (-75.19))]"
  by (simp add: format_row_def select_list_def sample_rows toString_def or_empty_def
      of_nullable_def trim_def is_space_def location_line_def strip_commas_def truthy_def
      map_filter_def suffix_def)

lemma sample_view_2:
  "format_row (select_list (uz_geom zip_19104) (provider_2, address_2, rx_3, zip_19103)) =
     [(''id'', JString ''1000000002''), (''npi'', JString ''1000000002''),
      (''name'', JString ''JOHN ROE''), (''first_name'', JString ''JOHN''),
      (''last_name'', JString ''ROE''), (''title'', JString []),
      (''specialties'', JArray [JString ''Family Medicine'']),
      (''city'', JNull), (''state'', JNull),
      (''location'', JString ''1800 LOMBARD ST, SUITE 2, ,  19103''),
      (''rating'', JNumber 0), (''review_count'', JNumber 0),
      (''availability'', JString ''N/A''),
      (''latitude'', JNumber 39.95), (''longitude'', JNumber (-75.17))]"
  by (simp add: format_row_def select_list_def sample_rows toString_def or_empty_def
      of_nullable_def trim_def is_space_def location_line_def strip_commas_def truthy_def
      map_filter_def suffix_def)

text \<open>
  Claim C9 fails on the code. The query of the page selects the phone, the distance and
  the claim count of each row (\<open>phone\<close>, \<open>distance_meters\<close>, \<open>total_claim_count\<close>), and
  the object that \<open>findProviders\<close> makes of a row has no key for any of the three: the
  views of a response have the fifteen keys below. The
  view copies \<open>first_name\<close>, \<open>last_name\<close>, \<open>city\<close> and \<open>state\<close> from the row without a
  default, so the null city and state of provider 1000000002 are sent as null, and its
  address line is put together around them. The response is that of the sample search:
  the first view is of provider 1000000001, whose row has a phone number, and the
  third is of provider 1000000002.
\<close>

theorem provider_views_lack_phone_distance_claims:
  "findProviders sample_db sample_search =
     Inr (search_from sample_db sample_search (uz_geom zip_19104)) \<and>
   map (\<lambda>row. (npi row, phone row, total_claim_count row, city row, state row))
     (finalQuery (matching_rows sample_db sample_search (uz_geom zip_19104)) (uz_geom zip_19104)
        (Some ''distance'') 10 0) =
   [(1000000001, Some ''2155550101'', Some 25, Some ''PHILADELPHIA'', Some ''PA''),
    (1000000001, Some ''2155550101'', Some 11, Some ''PHILADELPHIA'', Some ''PA''),
    (1000000002, None, Some 40, None, None),
    (1000000003, Some ''2135550103'', Some 30, Some ''LOS ANGELES'', Some ''CA'')] \<and>
   map distance_meters (take 3
     (finalQuery (matching_rows sample_db sample_search (uz_geom zip_19104)) (uz_geom zip_19104)
        (Some ''distance'') 10 0)) = [0, 0, 0.02] \<and>
   length (data (search_from sample_db sample_search (uz_geom zip_19104))) = 4 \<and>
   set (map (map fst) (data (search_from sample_db sample_search (uz_geom zip_19104)))) =
     {[''id'', ''npi'', ''name'', ''first_name'', ''last_name'', ''title'', ''specialties'',
       ''city'', ''state'', ''location'', ''rating'', ''review_count'', ''availability'',
       ''latitude'', ''longitude'']} \<and>
   data (search_from sample_db sample_search (uz_geom zip_19104)) ! 0 =
     [(''id'', JString ''1000000001''), (''npi'', JString ''1000000001''),
      (''name'', JString ''JANE DOE''), (''first_name'', JString ''JANE''),
      (''last_name'', JString ''DOE''), (''title'', JString ''MD''),
      (''specialties'', JArray [JString ''Psychiatry & Neurology'', JString ''Psychiatry'']),
      (''city'', JString ''PHILADELPHIA''), (''state'', JString ''PA''),
      (''location'', JString ''3400 SPRUCE ST, PHILADELPHIA, PA 19104''),
      (''rating'', JNumber 0), (''review_count'', JNumber 0),
      (''availability'', JString ''N/A''),
      (''latitude'', JNumber 39.95), (''longitude'', JNumber (-75.19))] \<and>
   data (search_from sample_db sample_search (uz_geom zip_19104)) ! 2 =
     [(''id'', JString ''1000000002''), (''npi'', JString ''1000000002''),
      (''name'', JString ''JOHN ROE''), (''first_name'', JString ''JOHN''),
      (''last_name'', JString ''ROE''), (''title'', JString []),
      (''specialties'', JArray [JString ''Family Medicine'']),
      (''city'', JNull), (''state'', JNull),
      (''location'', JString ''1800 LOMBARD ST, SUITE 2, ,  19103''),
      (''rating'', JNumber 0), (''review_count'', JNumber 0),
      (''availability'', JString ''N/A''),
      (''latitude'', JNumber 39.95), (''longitude'', JNumber (-75.17))]"
proof -
  let ?r = "search_from sample_db sample_search (uz_geom zip_19104)"
  have l: "length (data ?r) = 4"
    by (simp add: sample_result)
  have k: "set (map (map fst) (data ?r)) =
     {[''id'', ''npi'', ''name'', ''first_name'', ''last_name'', ''title'', ''specialties'',
       ''city'', ''state'', ''location'', ''rating'', ''review_count'', ''availability'',
       ''latitude'', ''longitude'']}"
    by (simp add: sample_result format_row_keys)
  have "data ?r ! 0 =
      format_row (select_list (uz_geom zip_19104) (provider_1, address_1, rx_1, zip_19104))"
    "data ?r ! 2 =
      format_row (select_list (uz_geom zip_19104) (provider_2, address_2, rx_3, zip_19103))"
    by (simp_all add: sample_result)
  then show ?thesis
    unfolding sample_view_1 sample_view_2
    using sample_search_found sample_columns sample_column_distance l k by (intro conjI)
qed

section \<open>Tier resolution\<close>

lemma on_error_not_found:
  "on_error (Error (msg @ '' not found'')) = json 404 (Error_body (msg @ '' not found''))"
proof -
  have "sublist ''not found'' ((msg @ '' '') @ ''not found'')"
    by (rule sublist_append_leftI)
  then show ?thesis
    by (simp add: on_error_def)
qed

lemma location_query_primary:
  "location_query a u None True =
     take 1 (filter (\<lambda>r. ul_user_id r = u \<and> ul_is_primary r) (user_locations a))"
  by (simp add: location_query_def truthy_def)

lemma location_query_label:
  "l \<noteq> [] \<Longrightarrow> location_query a u (Some l) False =
     take 1 (filter (\<lambda>r. ul_user_id r = u \<and> ul_location_name r = Some l) (user_locations a))"
proof -
  assume "l \<noteq> []"
  moreover have "sql_eq x (Some l) = (x = Some l)" for x
    by (cases x) (simp_all add: sql_eq_def)
  ultimately show ?thesis
    by (simp add: location_query_def truthy_def)
qed

lemma route_valid:
  "findProvidersSchema b \<Longrightarrow> find_providers_route a u b = findProvidersHandler a (Some u) b"
  by (simp add: find_providers_route_def)

lemma basic_without_primary:
  assumes "getUserTier a u = Inr (Some ''basic'')" and "findProvidersSchema b"
    and "filter (\<lambda>r. ul_user_id r = u \<and> ul_is_primary r) (user_locations a) = []"
  shows "find_providers_route a u b =
           (json 404 (Error_body ''Primary location not found''),
            [Select_profile, Select_user_locations])"
  using assms on_error_not_found [of "''Primary location''"]
  by (simp add: route_valid findProvidersHandler_def getUserLocation_def location_query_primary
      truthy_def)

lemma basic_with_primary:
  assumes "getUserTier a u = Inr (Some ''basic'')" and "findProvidersSchema b"
    and "filter (\<lambda>r. ul_user_id r = u \<and> ul_is_primary r) (user_locations a) = loc # rest"
  shows "find_providers_route a u b =
           run_search a b (ul_zip_code loc) [Select_profile, Select_user_locations]"
  using assms
  by (simp add: route_valid findProvidersHandler_def getUserLocation_def location_query_primary)

lemma search_params_ignores_zip_and_label:
  "search_params (b\<lparr>body_locationName := l, body_zipCode := z\<rparr>) searchZip = search_params b searchZip"
  by (simp add: search_params_def)

lemma run_search_ignores_zip_and_label:
  "run_search a (b\<lparr>body_locationName := l, body_zipCode := z\<rparr>) searchZip sent =
     run_search a b searchZip sent"
  by (simp add: run_search_def search_params_ignores_zip_and_label)

lemma basic_ignores_zip_and_label:
  assumes "getUserTier a u = Inr (Some ''basic'')" and "findProvidersSchema b"
    and "findProvidersSchema (b\<lparr>body_locationName := l, body_zipCode := z\<rparr>)"
  shows "find_providers_route a u (b\<lparr>body_locationName := l, body_zipCode := z\<rparr>) =
           find_providers_route a u b"
  using assms
  by (simp add: route_valid findProvidersHandler_def run_search_ignores_zip_and_label
      split: sum.splits)

lemma premium_without_label:
  assumes "getUserTier a u = Inr (Some ''premium'')" and "findProvidersSchema b"
    and "\<not> truthy (body_locationName b)"
  shows "find_providers_route a u b =
           (json 400 (Error_body ''locationName required for premium''), [Select_profile])"
  using assms by (simp add: route_valid findProvidersHandler_def)

lemma premium_unmatched_label:
  assumes "getUserTier a u = Inr (Some ''premium'')" and "findProvidersSchema b"
    and "body_locationName b = Some l" and "l \<noteq> []"
    and "filter (\<lambda>r. ul_user_id r = u \<and> ul_location_name r = Some l) (user_locations a) = []"
  shows "find_providers_route a u b =
           (json 404 (Error_body (''Location '' @ [CHR 0x27] @ l @ [CHR 0x27] @ '' not found'')),
            [Select_profile, Select_user_locations])"
  using assms on_error_not_found [of "''Location '' @ [CHR 0x27] @ l @ [CHR 0x27]"]
  by (simp add: route_valid findProvidersHandler_def getUserLocation_def location_query_label
      truthy_def)

lemma premium_with_label:
  assumes "getUserTier a u = Inr (Some ''premium'')" and "findProvidersSchema b"
    and "body_locationName b = Some l" and "l \<noteq> []"
    and "filter (\<lambda>r. ul_user_id r = u \<and> ul_location_name r = Some l) (user_locations a) = loc # rest"
  shows "find_providers_route a u b =
           run_search a b (ul_zip_code loc) [Select_profile, Select_user_locations]"
  using assms
  by (simp add: route_valid findProvidersHandler_def getUserLocation_def location_query_label
      truthy_def)

lemma expert_without_zip:
  assumes "getUserTier a u = Inr t" and "t \<noteq> Some ''basic''" and "t \<noteq> Some ''premium''"
    and "findProvidersSchema b" and "\<not> truthy (body_zipCode b)"
  shows "status (fst (find_providers_route a u b)) = 400 \<and>
         snd (find_providers_route a u b) = [Select_profile]"
  using assms by (simp add: route_valid findProvidersHandler_def json_def)

lemma expert_with_zip:
  assumes "getUserTier a u = Inr t" and "t \<noteq> Some ''basic''" and "t \<noteq> Some ''premium''"
    and "findProvidersSchema b" and "truthy (body_zipCode b)"
  shows "find_providers_route a u b = run_search a b (body_zipCode b) [Select_profile]"
  using assms by (simp add: route_valid findProvidersHandler_def)

lemma run_search_queries:
  "set (snd (run_search a b z sent)) \<subseteq> set sent \<union> {Select_zip, Select_count, Select_page}"
  by (auto simp: run_search_def split: sum.splits if_splits)

lemma malformed_zip_rejected:
  assumes "body_zipCode b = Some z" and "z \<noteq> []" and "\<not> five_digits z"
  shows "find_providers_route a u b = (json 400 Validation_Error_body, [])"
  using assms by (simp add: find_providers_route_def findProvidersSchema_def)

lemma run_search_with_zip:
  "z \<noteq> [] \<Longrightarrow> run_search a b (Some z) sent =
     (case findProviders (store a) (search_params b z) of
        Inl e \<Rightarrow> (on_error e, sent @ [Select_zip])
      | Inr results \<Rightarrow> (json 200 (Search_body results), sent @ [Select_zip, Select_count, Select_page]))"
  by (simp add: run_search_def truthy_def)

text \<open>
  Claim C4. For a request that passes validation:
  \<^item> a basic user is answered from the zip code of the first saved location flagged
    primary, whatever zip code and label the body carries, and with 404
    \<open>Primary location not found\<close> when there is none;
  \<^item> a premium user is answered 400 without a \<open>locationName\<close>, 404 when no saved
    location has that label, and otherwise from the zip code of the location with
    exactly that label;
  \<^item> any other user (expert, unknown tier, no profile) is answered 400 without a
    \<open>zipCode\<close> and otherwise from that zip code, and no saved location is read.

  A body whose \<open>zipCode\<close> is not empty and not five digits is answered 400
  \<open>Validation Error\<close> and no query is sent. A search from zip code \<open>z\<close> is
  \<open>findProviders\<close> with \<open>zipCode = z\<close>.
\<close>

theorem tier_resolution:
  "(getUserTier a u = Inr (Some ''basic'') \<and> findProvidersSchema b \<longrightarrow>
      (filter (\<lambda>r. ul_user_id r = u \<and> ul_is_primary r) (user_locations a) = [] \<longrightarrow>
         find_providers_route a u b =
           (json 404 (Error_body ''Primary location not found''),
            [Select_profile, Select_user_locations])) \<and>
      (\<forall>loc rest.
         filter (\<lambda>r. ul_user_id r = u \<and> ul_is_primary r) (user_locations a) = loc # rest \<longrightarrow>
         find_providers_route a u b =
           run_search a b (ul_zip_code loc) [Select_profile, Select_user_locations]) \<and>
      (\<forall>l z. findProvidersSchema (b\<lparr>body_locationName := l, body_zipCode := z\<rparr>) \<longrightarrow>
         find_providers_route a u (b\<lparr>body_locationName := l, body_zipCode := z\<rparr>) =
           find_providers_route a u b)) \<and>
   (getUserTier a u = Inr (Some ''premium'') \<and> findProvidersSchema b \<longrightarrow>
      (\<not> truthy (body_locationName b) \<longrightarrow>
         find_providers_route a u b =
           (json 400 (Error_body ''locationName required for premium''), [Select_profile])) \<and>
      (\<forall>l. body_locationName b = Some l \<and> l \<noteq> [] \<longrightarrow>
         (filter (\<lambda>r. ul_user_id r = u \<and> ul_location_name r = Some l) (user_locations a) = [] \<longrightarrow>
            find_providers_route a u b =
              (json 404 (Error_body (''Location '' @ [CHR 0x27] @ l @ [CHR 0x27] @ '' not found'')),
               [Select_profile, Select_user_locations])) \<and>
         (\<forall>loc rest.
            filter (\<lambda>r. ul_user_id r = u \<and> ul_location_name r = Some l) (user_locations a) =
              loc # rest \<longrightarrow>
            find_providers_route a u b =
              run_search a b (ul_zip_code loc) [Select_profile, Select_user_locations]))) \<and>
   (\<forall>t. getUserTier a u = Inr t \<and> t \<noteq> Some ''basic'' \<and> t \<noteq> Some ''premium'' \<and>
        findProvidersSchema b \<longrightarrow>
      (\<not> truthy (body_zipCode b) \<longrightarrow>
         status (fst (find_providers_route a u b)) = 400 \<and>
         snd (find_providers_route a u b) = [Select_profile]) \<and>
      (truthy (body_zipCode b) \<longrightarrow>
         find_providers_route a u b = run_search a b (body_zipCode b) [Select_profile] \<and>
         Select_user_locations \<notin> set (snd (find_providers_route a u b)))) \<and>
   (\<forall>z. body_zipCode b = Some z \<and> z \<noteq> [] \<and> \<not> five_digits z \<longrightarrow>
      find_providers_route a u b = (json 400 Validation_Error_body, [])) \<and>
   (\<forall>z sent. z \<noteq> [] \<longrightarrow>
      zipCode (search_params b z) = z \<and>
      run_search a b (Some z) sent =
        (case findProviders (store a) (search_params b z) of
           Inl e \<Rightarrow> (on_error e, sent @ [Select_zip])
         | Inr results \<Rightarrow>
             (json 200 (Search_body results), sent @ [Select_zip, Select_count, Select_page])))"
proof -
  have basic: "getUserTier a u = Inr (Some ''basic'') \<and> findProvidersSchema b \<longrightarrow>
      (filter (\<lambda>r. ul_user_id r = u \<and> ul_is_primary r) (user_locations a) = [] \<longrightarrow>
         find_providers_route a u b =
           (json 404 (Error_body ''Primary location not found''),
            [Select_profile, Select_user_locations])) \<and>
      (\<forall>loc rest.
         filter (\<lambda>r. ul_user_id r = u \<and> ul_is_primary r) (user_locations a) = loc # rest \<longrightarrow>
         find_providers_route a u b =
           run_search a b (ul_zip_code loc) [Select_profile, Select_user_locations]) \<and>
      (\<forall>l z. findProvidersSchema (b\<lparr>body_locationName := l, body_zipCode := z\<rparr>) \<longrightarrow>
         find_providers_route a u (b\<lparr>body_locationName := l, body_zipCode := z\<rparr>) =
           find_providers_route a u b)"
    using basic_without_primary [of a u b] basic_with_primary [of a u b]
      basic_ignores_zip_and_label [of a u b]
    by blast
  have premium: "getUserTier a u = Inr (Some ''premium'') \<and> findProvidersSchema b \<longrightarrow>
      (\<not> truthy (body_locationName b) \<longrightarrow>
         find_providers_route a u b =
           (json 400 (Error_body ''locationName required for premium''), [Select_profile])) \<and>
      (\<forall>l. body_locationName b = Some l \<and> l \<noteq> [] \<longrightarrow>
         (filter (\<lambda>r. ul_user_id r = u \<and> ul_location_name r = Some l) (user_locations a) = [] \<longrightarrow>
            find_providers_route a u b =
              (json 404 (Error_body (''Location '' @ [CHR 0x27] @ l @ [CHR 0x27] @ '' not found'')),
               [Select_profile, Select_user_locations])) \<and>
         (\<forall>loc rest.
            filter (\<lambda>r. ul_user_id r = u \<and> ul_location_name r = Some l) (user_locations a) =
              loc # rest \<longrightarrow>
            find_providers_route a u b =
              run_search a b (ul_zip_code loc) [Select_profile, Select_user_locations]))"
    using premium_without_label [of a u b] premium_unmatched_label [of a u b]
      premium_with_label [of a u b]
    by blast
  have other: "\<forall>t. getUserTier a u = Inr t \<and> t \<noteq> Some ''basic'' \<and> t \<noteq> Some ''premium'' \<and>
        findProvidersSchema b \<longrightarrow>
      (\<not> truthy (body_zipCode b) \<longrightarrow>
         status (fst (find_providers_route a u b)) = 400 \<and>
         snd (find_providers_route a u b) = [Select_profile]) \<and>
      (truthy (body_zipCode b) \<longrightarrow>
         find_providers_route a u b = run_search a b (body_zipCode b) [Select_profile] \<and>
         Select_user_locations \<notin> set (snd (find_providers_route a u b)))"
  proof (intro allI impI conjI)
    fix t
    assume t: "getUserTier a u = Inr t \<and> t \<noteq> Some ''basic'' \<and> t \<noteq> Some ''premium'' \<and>
        findProvidersSchema b"
    {
      assume "\<not> truthy (body_zipCode b)"
      with t expert_without_zip [of a u t b]
      show "status (fst (find_providers_route a u b)) = 400"
        and "snd (find_providers_route a u b) = [Select_profile]"
        by blast+
    }
    {
      assume "truthy (body_zipCode b)"
      with t expert_with_zip [of a u t b]
      show r: "find_providers_route a u b = run_search a b (body_zipCode b) [Select_profile]"
        by blast
      show "Select_user_locations \<notin> set (snd (find_providers_route a u b))"
        unfolding r using run_search_queries [of a b "body_zipCode b" "[Select_profile]"]
        by auto
    }
  qed
  have malformed: "\<forall>z. body_zipCode b = Some z \<and> z \<noteq> [] \<and> \<not> five_digits z \<longrightarrow>
      find_providers_route a u b = (json 400 Validation_Error_body, [])"
    using malformed_zip_rejected [of b _ a u] by blast
  have search: "\<forall>z sent. z \<noteq> [] \<longrightarrow>
      zipCode (search_params b z) = z \<and>
      run_search a b (Some z) sent =
        (case findProviders (store a) (search_params b z) of
           Inl e \<Rightarrow> (on_error e, sent @ [Select_zip])
         | Inr results \<Rightarrow>
             (json 200 (Search_body results), sent @ [Select_zip, Select_count, Select_page]))"
    using run_search_with_zip [of _ a b] by (simp add: search_params_def)
  from basic premium other malformed search show ?thesis
    by (intro conjI)
qed

lemma sample_body_params: "search_params sample_body ''19104'' = sample_search"
  by (simp add: search_params_def sample_body_def sample_search_def)

theorem tier_resolution_witness:
  "getUserTier sample_app ''basic-user'' = Inr (Some ''basic'') \<and>
   findProvidersSchema sample_body \<and>
   filter (\<lambda>r. ul_user_id r = ''basic-user'' \<and> ul_is_primary r) (user_locations sample_app) =
     [\<lparr>ul_user_id = ''basic-user'', ul_location_name = Some ''Home'',
       ul_zip_code = Some ''19104'', ul_is_primary = True\<rparr>] \<and>
   find_providers_route sample_app ''basic-user'' sample_body =
     (json 200 (Search_body (search_from sample_db sample_search (uz_geom zip_19104))),
      [Select_profile, Select_user_locations, Select_zip, Select_count, Select_page]) \<and>
   findProvidersSchema (sample_body\<lparr>body_locationName := Some ''Work'', body_zipCode := Some ''90012''\<rparr>) \<and>
   find_providers_route sample_app ''basic-user''
       (sample_body\<lparr>body_locationName := Some ''Work'', body_zipCode := Some ''90012''\<rparr>) =
     find_providers_route sample_app ''basic-user'' sample_body \<and>
   getUserTier sample_app ''new-user'' = Inr (Some ''basic'') \<and>
   filter (\<lambda>r. ul_user_id r = ''new-user'' \<and> ul_is_primary r) (user_locations sample_app) = [] \<and>
   find_providers_route sample_app ''new-user'' sample_body =
     (json 404 (Error_body ''Primary location not found''), [Select_profile, Select_user_locations]) \<and>
   getUserTier sample_app ''premium-user'' = Inr (Some ''premium'') \<and>
   \<not> truthy (body_locationName sample_body) \<and>
   find_providers_route sample_app ''premium-user'' sample_body =
     (json 400 (Error_body ''locationName required for premium''), [Select_profile]) \<and>
   findProvidersSchema (sample_body\<lparr>body_locationName := Some ''Work''\<rparr>) \<and>
   filter (\<lambda>r. ul_user_id r = ''premium-user'' \<and> ul_location_name r = Some ''Work'')
       (user_locations sample_app) =
     [\<lparr>ul_user_id = ''premium-user'', ul_location_name = Some ''Work'',
       ul_zip_code = Some ''19104'', ul_is_primary = False\<rparr>] \<and>
   find_providers_route sample_app ''premium-user'' (sample_body\<lparr>body_locationName := Some ''Work''\<rparr>) =
     run_search sample_app (sample_body\<lparr>body_locationName := Some ''Work''\<rparr>) (Some ''19104'')
       [Select_profile, Select_user_locations] \<and>
   findProvidersSchema (sample_body\<lparr>body_locationName := Some ''Gym''\<rparr>) \<and>
   filter (\<lambda>r. ul_user_id r = ''premium-user'' \<and> ul_location_name r = Some ''Gym'')
       (user_locations sample_app) = [] \<and>
   status (fst (find_providers_route sample_app ''premium-user''
       (sample_body\<lparr>body_locationName := Some ''Gym''\<rparr>))) = 404 \<and>
   getUserTier sample_app ''expert-user'' = Inr (Some ''expert'') \<and>
   \<not> truthy (body_zipCode sample_body) \<and>
   status (fst (find_providers_route sample_app ''expert-user'' sample_body)) = 400 \<and>
   snd (find_providers_route sample_app ''expert-user'' sample_body) = [Select_profile] \<and>
   findProvidersSchema (sample_body\<lparr>body_zipCode := Some ''19103''\<rparr>) \<and>
   truthy (body_zipCode (sample_body\<lparr>body_zipCode := Some ''19103''\<rparr>)) \<and>
   find_providers_route sample_app ''expert-user'' (sample_body\<lparr>body_zipCode := Some ''19103''\<rparr>) =
     run_search sample_app (sample_body\<lparr>body_zipCode := Some ''19103''\<rparr>) (Some ''19103'')
       [Select_profile] \<and>
   getUserTier sample_app ''stranger'' = Inr None \<and>
   find_providers_route sample_app ''stranger'' (sample_body\<lparr>body_zipCode := Some ''19103''\<rparr>) =
     run_search sample_app (sample_body\<lparr>body_zipCode := Some ''19103''\<rparr>) (Some ''19103'')
       [Select_profile] \<and>
   \<not> five_digits ''1910'' \<and>
   find_providers_route sample_app ''expert-user'' (sample_body\<lparr>body_zipCode := Some ''1910''\<rparr>) =
     (json 400 Validation_Error_body, [])"
proof -
  let ?home = "\<lparr>ul_user_id = ''basic-user'', ul_location_name = Some ''Home'',
       ul_zip_code = Some ''19104'', ul_is_primary = True\<rparr>"
  let ?work = "\<lparr>ul_user_id = ''premium-user'', ul_location_name = Some ''Work'',
       ul_zip_code = Some ''19104'', ul_is_primary = False\<rparr>"
  let ?b1 = "sample_body\<lparr>body_locationName := Some ''Work'', body_zipCode := Some ''90012''\<rparr>"
  let ?bw = "sample_body\<lparr>body_locationName := Some ''Work''\<rparr>"
  let ?bg = "sample_body\<lparr>body_locationName := Some ''Gym''\<rparr>"
  let ?bz = "sample_body\<lparr>body_zipCode := Some ''19103''\<rparr>"
  let ?bm = "sample_body\<lparr>body_zipCode := Some ''1910''\<rparr>"
  have tiers: "getUserTier sample_app ''basic-user'' = Inr (Some ''basic'')"
    "getUserTier sample_app ''new-user'' = Inr (Some ''basic'')"
    "getUserTier sample_app ''premium-user'' = Inr (Some ''premium'')"
    "getUserTier sample_app ''expert-user'' = Inr (Some ''expert'')"
    "getUserTier sample_app ''stranger'' = Inr None"
    by (simp_all add: getUserTier_def sample_app_def)
  have valid: "findProvidersSchema sample_body" "findProvidersSchema ?b1"
    "findProvidersSchema ?bw" "findProvidersSchema ?bg" "findProvidersSchema ?bz"
    by (simp_all add: findProvidersSchema_def sample_body_def in_range_def at_least_def
        five_digits_def)
  have rows: "filter (\<lambda>r. ul_user_id r = ''basic-user'' \<and> ul_is_primary r)
        (user_locations sample_app) = [?home]"
    "filter (\<lambda>r. ul_user_id r = ''new-user'' \<and> ul_is_primary r) (user_locations sample_app) = []"
    "filter (\<lambda>r. ul_user_id r = ''premium-user'' \<and> ul_location_name r = Some ''Work'')
        (user_locations sample_app) = [?work]"
    "filter (\<lambda>r. ul_user_id r = ''premium-user'' \<and> ul_location_name r = Some ''Gym'')
        (user_locations sample_app) = []"
    by (simp_all add: sample_app_def)
  have fields: "\<not> truthy (body_locationName sample_body)" "\<not> truthy (body_zipCode sample_body)"
    "truthy (body_zipCode ?bz)" "body_zipCode ?bz = Some ''19103''"
    "body_locationName ?bw = Some ''Work''" "body_locationName ?bg = Some ''Gym''"
    "body_zipCode ?bm = Some ''1910''" "\<not> five_digits ''1910''"
    by (simp_all add: sample_body_def truthy_def five_digits_def)
  have found: "findProviders (store sample_app) (search_params sample_body ''19104'') =
      Inr (search_from sample_db sample_search (uz_geom zip_19104))"
    unfolding sample_body_params using sample_search_found by (simp add: sample_app_def)
  note basic = tier_resolution [of sample_app "''basic-user''" sample_body]
  from basic tiers(1) valid(1) rows(1)
  have "find_providers_route sample_app ''basic-user'' sample_body =
      run_search sample_app sample_body (ul_zip_code ?home) [Select_profile, Select_user_locations]"
    by blast
  moreover from basic have "run_search sample_app sample_body (Some ''19104'')
        [Select_profile, Select_user_locations] =
      (case findProviders (store sample_app) (search_params sample_body ''19104'') of
         Inl e \<Rightarrow> (on_error e, [Select_profile, Select_user_locations] @ [Select_zip])
       | Inr results \<Rightarrow> (json 200 (Search_body results),
           [Select_profile, Select_user_locations] @ [Select_zip, Select_count, Select_page]))"
    by blast
  ultimately have w1: "find_providers_route sample_app ''basic-user'' sample_body =
     (json 200 (Search_body (search_from sample_db sample_search (uz_geom zip_19104))),
      [Select_profile, Select_user_locations, Select_zip, Select_count, Select_page])"
    by (simp add: found)
  from basic tiers(1) valid(1,2)
  have w2: "find_providers_route sample_app ''basic-user'' ?b1 =
     find_providers_route sample_app ''basic-user'' sample_body"
    by blast
  from tier_resolution [of sample_app "''new-user''" sample_body] tiers(2) valid(1) rows(2)
  have w3: "find_providers_route sample_app ''new-user'' sample_body =
     (json 404 (Error_body ''Primary location not found''), [Select_profile, Select_user_locations])"
    by blast
  from tier_resolution [of sample_app "''premium-user''" sample_body] tiers(3) valid(1) fields(1)
  have w4: "find_providers_route sample_app ''premium-user'' sample_body =
     (json 400 (Error_body ''locationName required for premium''), [Select_profile])"
    by blast
  from tier_resolution [of sample_app "''premium-user''" ?bw] tiers(3) valid(3) fields(5) rows(3)
  have "find_providers_route sample_app ''premium-user'' ?bw =
     run_search sample_app ?bw (ul_zip_code ?work) [Select_profile, Select_user_locations]"
    by blast
  then have w5: "find_providers_route sample_app ''premium-user'' ?bw =
     run_search sample_app ?bw (Some ''19104'') [Select_profile, Select_user_locations]"
    by simp
  from tier_resolution [of sample_app "''premium-user''" ?bg] tiers(3) valid(4) fields(6) rows(4)
  have "find_providers_route sample_app ''premium-user'' ?bg =
     (json 404 (Error_body (''Location '' @ [CHR 0x27] @ ''Gym'' @ [CHR 0x27] @ '' not found'')),
      [Select_profile, Select_user_locations])"
    by blast
  then have w6: "status (fst (find_providers_route sample_app ''premium-user'' ?bg)) = 404"
    by (simp add: json_def)
  from tier_resolution [of sample_app "''expert-user''" sample_body] tiers(4) valid(1) fields(2)
  have w7: "status (fst (find_providers_route sample_app ''expert-user'' sample_body)) = 400"
    "snd (find_providers_route sample_app ''expert-user'' sample_body) = [Select_profile]"
    by blast+
  from tier_resolution [of sample_app "''expert-user''" ?bz] tiers(4) valid(5) fields(3)
  have "find_providers_route sample_app ''expert-user'' ?bz =
     run_search sample_app ?bz (body_zipCode ?bz) [Select_profile]"
    by blast
  then have w8: "find_providers_route sample_app ''expert-user'' ?bz =
     run_search sample_app ?bz (Some ''19103'') [Select_profile]"
    by (simp only: fields(4))
  from tier_resolution [of sample_app "''stranger''" ?bz] tiers(5) valid(5) fields(3)
  have "find_providers_route sample_app ''stranger'' ?bz =
     run_search sample_app ?bz (body_zipCode ?bz) [Select_profile]"
    by blast
  then have w9: "find_providers_route sample_app ''stranger'' ?bz =
     run_search sample_app ?bz (Some ''19103'') [Select_profile]"
    by (simp only: fields(4))
  from tier_resolution [of sample_app "''expert-user''" ?bm] fields(7,8)
  have w10: "find_providers_route sample_app ''expert-user'' ?bm = (json 400 Validation_Error_body, [])"
    by blast
  show ?thesis
    using tiers(1) valid(1) rows(1) w1 valid(2) w2 tiers(2) rows(2) w3 tiers(3) fields(1) w4
      valid(3) rows(3) w5 valid(4) rows(4) w6 tiers(4) fields(2) w7 valid(5) fields(3) w8
      tiers(5) w9 fields(8) w10
    by (intro conjI)
qed

section \<open>The count of a search\<close>

lemma sample_basic_route:
  assumes "findProvidersSchema b"
  shows "find_providers_route sample_app ''basic-user'' b =
     (json 200 (Search_body (search_from sample_db (search_params b ''19104'') (uz_geom zip_19104))),
      [Select_profile, Select_user_locations, Select_zip, Select_count, Select_page])"
proof -
  let ?home = "\<lparr>ul_user_id = ''basic-user'', ul_location_name = Some ''Home'',
       ul_zip_code = Some ''19104'', ul_is_primary = True\<rparr>"
  have "getUserTier sample_app ''basic-user'' = Inr (Some ''basic'')"
    by (simp add: getUserTier_def sample_app_def)
  moreover have "filter (\<lambda>r. ul_user_id r = ''basic-user'' \<and> ul_is_primary r)
        (user_locations sample_app) = [?home]"
    by (simp add: sample_app_def)
  ultimately have "find_providers_route sample_app ''basic-user'' b =
      run_search sample_app b (ul_zip_code ?home) [Select_profile, Select_user_locations]"
    using assms by (intro basic_with_primary)
  moreover have "findProviders (store sample_app) (search_params b ''19104'') =
      Inr (search_from sample_db (search_params b ''19104'') (uz_geom zip_19104))"
    using sample_findProviders [of "search_params b ''19104''"]
    by (simp add: search_params_def sample_app_def)
  ultimately show ?thesis
    by (simp add: run_search_with_zip)
qed

text \<open>
  Claim C7 fails on the code. \<open>COUNT(DISTINCT nd.npi)\<close> counts a provider once however
  many of its rows pass (provider 1000000001 has two rows in the base query), but the
  rows that pass are those of the query's conditions, which are not the filter set of
  the claim. The count of the sample search is 3: of provider 1000000001, of provider
  1000000002, which is deactivated, and of provider 1000000003, which practises in Los
  Angeles. It leaves out provider 1000000004, which is active and practises in the zip
  code of the origin, with 50 claims of a drug whose name contains \<open>sertraline\<close>. The
  providers that satisfy the filter set are 1000000001 and 1000000004, so the number of
  the claim is 2.

  The same request without \<open>minClaims\<close>, which the schema accepts with the default 0,
  counts no provider: the condition compares each claim count with NULL.
\<close>

theorem totalCount_is_of_other_providers:
  "findProviders sample_db sample_search =
     Inr (search_from sample_db sample_search (uz_geom zip_19104)) \<and>
   map (\<lambda>(nd, na, np, uz). (nd_npi nd, np_prescription_id np))
     (matching_rows sample_db sample_search (uz_geom zip_19104)) =
     [(1000000001, 1), (1000000001, 2), (1000000002, 3), (1000000003, 4)] \<and>
   totalCount (search_from sample_db sample_search (uz_geom zip_19104)) = 3 \<and>
   nd_npi provider_2 = 1000000002 \<and>
   nd_npi_deactivation_date provider_2 = Some ''2020-01-15'' \<and>
   na_npi address_3 = 1000000003 \<and>
   na_city_name address_3 = Some ''LOS ANGELES'' \<and>
   (provider_4, address_4, rx_5, zip_19104) \<in> set (joined sample_db) \<and>
   nd_npi provider_4 = 1000000004 \<and>
   nd_npi_deactivation_date provider_4 = None \<and>
   zip_lookup sample_db (zipCode sample_search) = [zip_19104] \<and>
   np_drug_name rx_5 = Some ''SERTRALINE HCL'' \<and>
   contains_ci ''SERTRALINE HCL'' ''sertraline'' \<and>
   np_total_claim_count rx_5 = Some 50 \<and>
   findProvidersSchema (sample_body\<lparr>body_minClaims := None\<rparr>) \<and>
   find_providers_route sample_app ''basic-user'' (sample_body\<lparr>body_minClaims := None\<rparr>) =
     (json 200 (Search_body \<lparr>data = [], totalCount = 0, nextCursor = None\<rparr>),
      [Select_profile, Select_user_locations, Select_zip, Select_count, Select_page])"
proof -
  let ?b = "sample_body\<lparr>body_minClaims := None\<rparr>"
  have m: "map (\<lambda>(nd, na, np, uz). (nd_npi nd, np_prescription_id np))
     (matching_rows sample_db sample_search (uz_geom zip_19104)) =
     [(1000000001, 1), (1000000001, 2), (1000000002, 3), (1000000003, 4)]"
    unfolding sample_matching by (simp add: sample_rows)
  have p: "nd_npi provider_2 = 1000000002"
    "nd_npi_deactivation_date provider_2 = Some ''2020-01-15''"
    "na_npi address_3 = 1000000003"
    "na_city_name address_3 = Some ''LOS ANGELES''"
    by (simp_all add: provider_2_def address_3_def)
  have j: "(provider_4, address_4, rx_5, zip_19104) \<in> set (joined sample_db)"
    by (simp add: sample_joined)
  have q: "nd_npi provider_4 = 1000000004" "nd_npi_deactivation_date provider_4 = None"
    by (simp_all add: provider_4_def)
  have z: "zip_lookup sample_db (zipCode sample_search) = [zip_19104]"
    by (simp add: sample_search_def sample_zip)
  have d: "np_drug_name rx_5 = Some ''SERTRALINE HCL''"
    by (simp add: rx_5_def)
  have c: "contains_ci ''SERTRALINE HCL'' ''sertraline''"
    by (simp add: contains_ci_def fold_case_def lower_char_def sublist_Cons_right)
  have n: "np_total_claim_count rx_5 = Some 50"
    by (simp add: rx_5_def)
  have v: "findProvidersSchema ?b"
    by (simp add: findProvidersSchema_def sample_body_def in_range_def at_least_def)
  have "minClaims (search_params ?b ''19104'') = None"
    by (simp add: search_params_def)
  then have "search_from sample_db (search_params ?b ''19104'') (uz_geom zip_19104) =
      \<lparr>data = [], totalCount = 0, nextCursor = None\<rparr>"
    by (intro search_from_no_rows matching_rows_without_minClaims)
  with sample_basic_route [OF v]
  have r: "find_providers_route sample_app ''basic-user'' ?b =
     (json 200 (Search_body \<lparr>data = [], totalCount = 0, nextCursor = None\<rparr>),
      [Select_profile, Select_user_locations, Select_zip, Select_count, Select_page])"
    by simp
  show ?thesis
    using sample_search_found m sample_total p j q z d c n v r by (intro conjI)
qed

section \<open>Metered access\<close>

text \<open>
  No call of \<open>getPrescriberDataWithSubscriptionCheck\<close> records anything, and a call for a
  user on a usage-based plan ends in the \<open>ReferenceError\<close>.
\<close>

lemma metered_call_has_no_effect:
  "snd (getPrescriberDataWithSubscriptionCheck st userId filters) = []"
  by (simp add: getPrescriberDataWithSubscriptionCheck_def Let_def
      split: list.splits option.splits)

lemma metered_plan_throws:
  assumes "filter (\<lambda>us. us_user_id us = userId \<and> us_subscription_status us = ''active'')
             (user_subscriptions st) \<noteq> []"
    and "planResult st userId = plan # plans"
    and "prescribers_error st = None"
    and "sp_usage_based plan"
  shows "getPrescriberDataWithSubscriptionCheck st userId filters =
           (Threw (Error ''stripe is not defined''), [])"
proof -
  from assms(1) obtain us where "us \<in> set (user_subscriptions st)" "us_user_id us = userId"
    by (auto simp: filter_empty_conv)
  then have "filter (\<lambda>us. us_user_id us = userId) (user_subscriptions st) \<noteq> []"
    by (auto simp: filter_empty_conv)
  then obtain subscription rest
    where "filter (\<lambda>us. us_user_id us = userId) (user_subscriptions st) = subscription # rest"
    by (cases "filter (\<lambda>us. us_user_id us = userId) (user_subscriptions st)") auto
  with assms show ?thesis
    by (simp add: getPrescriberDataWithSubscriptionCheck_def Let_def)
qed

lemma metered_sample_facts:
  "filter (\<lambda>us. us_user_id us = ''user-1'' \<and> us_subscription_status us = ''active'')
     (user_subscriptions metered_sample) \<noteq> []"
  "planResult metered_sample ''user-1'' =
     [\<lparr>sp_stripe_product_id = ''prod_metered'', sp_tier = ''professional'', sp_usage_based = True\<rparr>]"
  "prescribers_error metered_sample = None"
  by (simp_all add: metered_sample_def planResult_def)

lemma metered_sample_data:
  "prescriber_query
     \<lparr>sp_stripe_product_id = ''prod_metered'', sp_tier = ''professional'', sp_usage_based = True\<rparr>
     no_filters (prescribers metered_sample) =
   [\<lparr>pr_state = ''PA'', pr_specialty = ''Psychiatry'', pr_prescription_count = 40\<rparr>]"
  by (simp add: prescriber_query_def no_filters_def metered_sample_def truthy_def)

text \<open>
  Claim C5 fails on the code. The search handler reads no plan and records nothing: a
  successful search sends the five queries of its trace, and \<open>server.js\<close> has no billing
  client and no audit table. The metering of the repository is in
  \<open>getPrescriberDataWithSubscriptionCheck\<close>, whose steps are headed \<open>Record usage for
  metered billing if applicable\<close>, \<open>Record API usage\<close> and \<open>Log usage in our database\<close>.
  For a user on a usage-based plan, whose query has succeeded, the call throws the
  \<open>ReferenceError\<close> of the unbound \<open>stripe\<close> before either step: there is no usage
  increment and no audit row (see \<open>metered_call_has_no_effect\<close>: for no user is there
  one), and the exception takes the place of the data. \<open>createUsageRecord\<close>, had it been
  reached, logs a failure of the billing service and throws it again.
\<close>

theorem metered_call_throws_before_recording:
  "find_providers_route sample_app ''basic-user'' sample_body =
     (json 200 (Search_body (search_from sample_db sample_search (uz_geom zip_19104))),
      [Select_profile, Select_user_locations, Select_zip, Select_count, Select_page]) \<and>
   filter (\<lambda>us. us_user_id us = ''user-1'' \<and> us_subscription_status us = ''active'')
     (user_subscriptions metered_sample) =
     [\<lparr>us_user_id = ''user-1'', us_subscription_status = ''active'',
       us_plan_id = ''prod_metered'', us_stripe_subscription_id = ''sub_1''\<rparr>] \<and>
   planResult metered_sample ''user-1'' =
     [\<lparr>sp_stripe_product_id = ''prod_metered'', sp_tier = ''professional'', sp_usage_based = True\<rparr>] \<and>
   prescribers_error metered_sample = None \<and>
   prescriber_query
     \<lparr>sp_stripe_product_id = ''prod_metered'', sp_tier = ''professional'', sp_usage_based = True\<rparr>
     no_filters (prescribers metered_sample) =
     [\<lparr>pr_state = ''PA'', pr_specialty = ''Psychiatry'', pr_prescription_count = 40\<rparr>] \<and>
   getPrescriberDataWithSubscriptionCheck metered_sample ''user-1'' no_filters =
     (Threw (Error ''stripe is not defined''), []) \<and>
   create_usage_record stripe_down ''si_1'' 1 = Inl (Error ''connection refused'') \<and>
   createUsageRecord stripe_down ''si_1'' 1 =
     (Inl (Error ''connection refused''),
      [Usage_increment ''si_1'' 1, Console_error ''Error creating usage record:''])"
proof -
  have v: "findProvidersSchema sample_body"
    by (simp add: findProvidersSchema_def sample_body_def in_range_def at_least_def)
  have s: "find_providers_route sample_app ''basic-user'' sample_body =
     (json 200 (Search_body (search_from sample_db sample_search (uz_geom zip_19104))),
      [Select_profile, Select_user_locations, Select_zip, Select_count, Select_page])"
    using sample_basic_route [OF v] by (simp only: sample_body_params)
  have a: "filter (\<lambda>us. us_user_id us = ''user-1'' \<and> us_subscription_status us = ''active'')
     (user_subscriptions metered_sample) =
     [\<lparr>us_user_id = ''user-1'', us_subscription_status = ''active'',
       us_plan_id = ''prod_metered'', us_stripe_subscription_id = ''sub_1''\<rparr>]"
    by (simp add: metered_sample_def)
  have g: "getPrescriberDataWithSubscriptionCheck metered_sample ''user-1'' no_filters =
     (Threw (Error ''stripe is not defined''), [])"
    by (rule metered_plan_throws [OF metered_sample_facts]) simp
  have d: "create_usage_record stripe_down ''si_1'' 1 = Inl (Error ''connection refused'')"
    by (simp add: stripe_down_def)
  then have c: "createUsageRecord stripe_down ''si_1'' 1 =
     (Inl (Error ''connection refused''),
      [Usage_increment ''si_1'' 1, Console_error ''Error creating usage record:''])"
    by (simp add: createUsageRecord_def)
  show ?thesis
    using s a metered_sample_facts(2,3) metered_sample_data g d c by (intro conjI)
qed

end
